theory Spec2Isabelle
  imports Main
begin

section \<open>Python strings\<close>

text \<open>
  A Python \<open>str\<close> is modelled as an Isabelle \<open>string\<close>, a list of 8-bit characters.
  The operations below are Python's on ASCII text; a symbol outside ASCII that a script
  prints is given by the bytes of its UTF-8 encoding, and the case and whitespace
  operations leave such bytes alone.
\<close>

definition isspace :: "char \<Rightarrow> bool" where
  "isspace c = (let n = (of_char c :: nat) in (9 \<le> n \<and> n \<le> 13) \<or> (28 \<le> n \<and> n \<le> 32))"

definition isupper :: "char \<Rightarrow> bool" where
  "isupper c = ((65::nat) \<le> of_char c \<and> of_char c \<le> (90::nat))"

definition islower :: "char \<Rightarrow> bool" where
  "islower c = ((97::nat) \<le> of_char c \<and> of_char c \<le> (122::nat))"

definition lower_char :: "char \<Rightarrow> char" where
  "lower_char c = (if isupper c then char_of (of_char c + (32::nat)) else c)"

definition upper_char :: "char \<Rightarrow> char" where
  "upper_char c = (if islower c then char_of (of_char c - (32::nat)) else c)"

definition lower :: "string \<Rightarrow> string" where
  "lower s = map lower_char s"

definition lstrip :: "string \<Rightarrow> string" where
  "lstrip s = dropWhile isspace s"

definition rstrip :: "string \<Rightarrow> string" where
  "rstrip s = rev (dropWhile isspace (rev s))"

definition strip :: "string \<Rightarrow> string" where
  "strip s = lstrip (rstrip s)"

abbreviation tab :: string where
  "tab \<equiv> [CHR 0x09]"

abbreviation bs :: string where
  "bs \<equiv> [CHR 0x5C]"

abbreviation sq :: string where
  "sq \<equiv> [CHR 0x27]"

text \<open>\<open>s.capitalize()\<close>: the first character in upper case, the rest in lower case.\<close>

fun str_capitalize :: "string \<Rightarrow> string" where
  "str_capitalize [] = []"
| "str_capitalize (c # cs) = upper_char c # lower cs"

text \<open>\<open>s.replace(a, b)\<close> for one-character \<open>a\<close> and \<open>b\<close>.\<close>

definition replace_char :: "char \<Rightarrow> char \<Rightarrow> string \<Rightarrow> string" where
  "replace_char a b s = map (\<lambda>c. if c = a then b else c) s"

text \<open>\<open>sep.join(xs)\<close>.\<close>

fun join :: "string \<Rightarrow> string list \<Rightarrow> string" where
  "join sep [] = []"
| "join sep [x] = x"
| "join sep (x # y # ys) = x @ sep @ join sep (y # ys)"

text \<open>\<open>s.split(c)\<close> for a one-character separator: the result is never empty.\<close>

fun split_char :: "char \<Rightarrow> string \<Rightarrow> string list" where
  "split_char sep [] = [[]]"
| "split_char sep (c # cs) =
    (if c = sep then [] # split_char sep cs
     else (case split_char sep cs of
             w # ws \<Rightarrow> (c # w) # ws
           | [] \<Rightarrow> [[c]]))"

text \<open>\<open>s.split(c, 1)\<close> where \<open>c\<close> occurs in \<open>s\<close>: the text before the first
  \<open>c\<close> and the text after it.\<close>

definition split_once :: "char \<Rightarrow> string \<Rightarrow> string \<times> string" where
  "split_once sep s = (takeWhile (\<lambda>c. c \<noteq> sep) s, drop 1 (dropWhile (\<lambda>c. c \<noteq> sep) s))"

text \<open>\<open>s.split()\<close>: the maximal runs of characters that are not whitespace.\<close>

fun split_ws_from :: "string \<Rightarrow> string \<Rightarrow> string list" where
  "split_ws_from w [] = (if w = [] then [] else [w])"
| "split_ws_from w (c # cs) =
    (if isspace c then (if w = [] then split_ws_from [] cs else w # split_ws_from [] cs)
     else split_ws_from (w @ [c]) cs)"

definition split_ws :: "string \<Rightarrow> string list" where
  "split_ws s = split_ws_from [] s"

text \<open>\<open>str(n)\<close> for a natural number.\<close>

function str_of_nat :: "nat \<Rightarrow> string" where
  "str_of_nat n =
    (if n < 10 then [char_of (48 + n)]
     else str_of_nat (n div 10) @ [char_of (48 + n mod 10)])"
  by pat_completeness auto
termination
  by (relation "measure id") auto

declare str_of_nat.simps [simp del]

text \<open>\<open>s.startswith(p)\<close> and the substring test \<open>p in s\<close>.\<close>

definition startswith :: "string \<Rightarrow> string \<Rightarrow> bool" where
  "startswith s p = (take (length p) s = p)"

fun str_in :: "string \<Rightarrow> string \<Rightarrow> bool" where
  "str_in p [] = (p = [])"
| "str_in p (c # cs) = (startswith (c # cs) p \<or> str_in p cs)"

section \<open>The Go type mapper (gin-developer/scripts/helpers.py)\<close>

definition TYPE_MAP_items :: "(string \<times> string) list" where
  "TYPE_MAP_items =
    [(''string'', ''string''), (''str'', ''string''), (''text'', ''string''),
     (''int'', ''int''), (''integer'', ''int''), (''int32'', ''int32''), (''int64'', ''int64''),
     (''uint'', ''uint''), (''uint32'', ''uint32''), (''uint64'', ''uint64''),
     (''float'', ''float64''), (''float32'', ''float32''), (''float64'', ''float64''),
     (''decimal'', ''float64''), (''number'', ''float64''),
     (''bool'', ''bool''), (''boolean'', ''bool''),
     (''time'', ''time.Time''), (''datetime'', ''time.Time''), (''timestamp'', ''time.Time''),
     (''date'', ''time.Time''),
     (''uuid'', ''uuid.UUID''), (''guid'', ''uuid.UUID''),
     (''bytes'', ''[]byte''), (''binary'', ''[]byte'')]"

definition TYPE_MAP :: "string \<rightharpoonup> string" where
  "TYPE_MAP = map_of TYPE_MAP_items"

text \<open>\<open>d.get(k, default)\<close> of a Python dict.\<close>

definition dict_get :: "('k \<rightharpoonup> 'v) \<Rightarrow> 'k \<Rightarrow> 'v \<Rightarrow> 'v" where
  "dict_get d k dflt = (case d k of Some v \<Rightarrow> v | None \<Rightarrow> dflt)"

lemma length_strip_le: "length (strip s) \<le> length s"
proof -
  have "length (lstrip (rstrip s)) \<le> length (rstrip s)"
    unfolding lstrip_def by (rule length_dropWhile_le)
  also have "length (rstrip s) \<le> length s"
    unfolding rstrip_def using length_dropWhile_le [of isspace "rev s"] by simp
  finally show ?thesis by (simp add: strip_def)
qed

lemma startswith_length: "startswith s p \<Longrightarrow> length p \<le> length s"
proof -
  assume "startswith s p"
  then have "length (take (length p) s) = length p" by (simp add: startswith_def)
  then show ?thesis by simp
qed

function map_type :: "string \<Rightarrow> string \<times> string list" where
  "map_type type_str =
    (let type_str = strip (lower type_str) in
     if startswith type_str ''[]'' then
       (let inner_type = drop 2 type_str;
            (go_type, imports) = map_type inner_type
        in (''[]'' @ go_type, imports))
     else if startswith type_str ''*'' then
       (let inner_type = drop 1 type_str;
            (go_type, imports) = map_type inner_type
        in (''*'' @ go_type, imports))
     else
       (let go_type = dict_get TYPE_MAP type_str ''string'';
            imports = (if str_in ''time.Time'' go_type then [''time'']
                       else if str_in ''uuid.UUID'' go_type then [''github.com/google/uuid'']
                       else [])
        in (go_type, imports)))"
  by pat_completeness auto
termination
proof (relation "measure length")
  show "wf (measure length)" by simp
next
  fix type_str x xa :: string
  assume "x = strip (lower type_str)" "startswith x ''[]''" "xa = drop 2 x"
  then show "(xa, type_str) \<in> measure length"
    using startswith_length [of x "''[]''"] length_strip_le [of "lower type_str"]
    by (simp add: lower_def)
next
  fix type_str x xa :: string
  assume "x = strip (lower type_str)" "startswith x ''*''" "xa = drop 1 x"
  then show "(xa, type_str) \<in> measure length"
    using startswith_length [of x "''*''"] length_strip_le [of "lower type_str"]
    by (simp add: lower_def)
qed

declare map_type.simps [simp del]

text \<open>
  The two modifiers of a type string, and a type string under a list of them
  (outermost first).
\<close>

datatype modifier = Array | Pointer

fun modifier_text :: "modifier \<Rightarrow> string" where
  "modifier_text Array = ''[]''"
| "modifier_text Pointer = ''*''"

definition wrap :: "modifier list \<Rightarrow> string \<Rightarrow> string" where
  "wrap ms s = concat (map modifier_text ms) @ s"

section \<open>The domain generator (gin-developer/scripts/generate_domain.py)\<close>

subsection \<open>Fields\<close>

text \<open>
  A \<open>Field\<close> object: the two constructor arguments and the three attributes that
  \<open>__init__\<close> computes from them (\<open>self.name\<close> is \<open>f_name\<close>, and so on).
\<close>

datatype Field =
  Field (f_name: string) (f_field_type: string) (f_go_type: string) (f_json_tag: string)
    (f_gorm_tag: string)

definition type_mapping_items :: "(string \<times> string) list" where
  "type_mapping_items =
    [(''string'', ''string''), (''int'', ''int''), (''int64'', ''int64''),
     (''float64'', ''float64''), (''bool'', ''bool''), (''time'', ''time.Time''),
     (''uuid'', ''uuid.UUID'')]"

definition type_mapping :: "string \<rightharpoonup> string" where
  "type_mapping = map_of type_mapping_items"

definition Field_map_type :: "string \<Rightarrow> string" where
  "Field_map_type field_type = dict_get type_mapping (lower field_type) ''string''"

text \<open>
  \<open>Field._to_snake_case\<close> and the module's \<open>to_snake_case\<close> have the same body: an
  underscore before every upper-case character but the first, all in lower case.
\<close>

definition to_snake_case :: "string \<Rightarrow> string" where
  "to_snake_case s =
    concat (map (\<lambda>(i, char). (if isupper char \<and> i > 0 then ''_'' else '''') @ [lower_char char])
                (enumerate 0 s))"

definition Field_generate_gorm_tag :: "string \<Rightarrow> string" where
  "Field_generate_gorm_tag field_type =
    (if field_type = ''string'' then ''type:varchar(255)''
     else if field_type \<in> set [''int'', ''int64''] then ''type:bigint''
     else if field_type = ''float64'' then ''type:decimal(10,2)''
     else if field_type = ''bool'' then ''type:boolean;default:false''
     else if field_type = ''time'' then ''type:timestamp''
     else if field_type = ''uuid'' then ''type:uuid''
     else '''')"

definition Field_init :: "string \<Rightarrow> string \<Rightarrow> Field" where
  "Field_init name field_type =
    Field name field_type (Field_map_type field_type) (to_snake_case name)
      (Field_generate_gorm_tag field_type)"

definition to_struct_field :: "Field \<Rightarrow> string" where
  \<open>to_struct_field f =
    tab @ str_capitalize (f_name f) @ '' '' @ f_go_type f @ '' `json:"'' @ f_json_tag f @
    ''" gorm:"'' @ f_gorm_tag f @ ''"`''\<close>

text \<open>The loop of \<open>parse_fields\<close> over the comma-separated definitions.\<close>

fun parse_field_defs :: "string list \<Rightarrow> Field list" where
  "parse_field_defs [] = []"
| "parse_field_defs (field_def # rest) =
    (let field_def = strip field_def in
     if CHR '':'' \<notin> set field_def then parse_field_defs rest
     else (let (name, field_type) = split_once CHR '':'' field_def
           in Field_init (strip name) (strip field_type) # parse_field_defs rest))"

definition parse_fields :: "string \<Rightarrow> Field list" where
  "parse_fields fields_str =
    (if fields_str = [] then [] else parse_field_defs (split_char CHR '','' fields_str))"

definition capitalize :: "string \<Rightarrow> string" where
  "capitalize s = (case s of [] \<Rightarrow> s | c # cs \<Rightarrow> upper_char c # cs)"

subsection \<open>The generated files\<close>

text \<open>
  \<open>generate_entity\<close> builds its import block in two local variables, \<open>imports\<close> and
  \<open>import_block\<close>; they are definitions of their own here, and \<open>generate_entity\<close>
  uses them.
\<close>

definition entity_imports :: "Field list \<Rightarrow> string list" where
  \<open>entity_imports fields =
    (let needs_time = list_ex (\<lambda>f. f_field_type f = ''time'') fields;
         needs_uuid = list_ex (\<lambda>f. f_field_type f = ''uuid'') fields
     in (if needs_time then [tab @ ''"time"''] else []) @
        (if needs_uuid then [tab @ ''"github.com/google/uuid"''] else []))\<close>

definition entity_import_block :: "Field list \<Rightarrow> string" where
  \<open>entity_import_block fields =
    (let imports = entity_imports fields
     in if imports \<noteq> [] then ''import (\<newline>'' @ join ''\<newline>'' imports @ ''\<newline>)\<newline>\<newline>''
        else '''')\<close>

definition generate_entity :: "string \<Rightarrow> Field list \<Rightarrow> string \<Rightarrow> string" where
  \<open>generate_entity domain_name fields module_path =
    (let entity_name = capitalize domain_name;
         import_block = entity_import_block fields;
         fields_str = join ''\<newline>'' (map to_struct_field fields)
     in concat
       [''package entity\<newline>'',
        ''\<newline>'',
        import_block @ ''type '' @ entity_name @ '' struct {\<newline>'',
        tab @ ''ID        uint   `json:"id" gorm:"primaryKey"`\<newline>'',
        fields_str @ ''\<newline>'',
        tab @ ''CreatedAt time.Time `json:"created_at" gorm:"autoCreateTime"`\<newline>'',
        tab @ ''UpdatedAt time.Time `json:"updated_at" gorm:"autoUpdateTime"`\<newline>'',
        ''}\<newline>'',
        ''\<newline>'',
        ''func (e *'' @ entity_name @ '') TableName() string {\<newline>'',
        tab @ ''return "'' @ (to_snake_case domain_name) @ ''s"\<newline>'',
        ''}\<newline>''])\<close>

definition generate_repository_interface :: "string \<Rightarrow> string \<Rightarrow> string" where
  \<open>generate_repository_interface domain_name module_path =
    (let entity_name = capitalize domain_name
     in concat
       [''package repository\<newline>'',
        ''\<newline>'',
        ''import (\<newline>'',
        tab @ ''"'' @ module_path @ ''/internal/domain/entity"\<newline>'',
        '')\<newline>'',
        ''\<newline>'',
        ''type '' @ entity_name @ ''Repository interface {\<newline>'',
        tab @ ''Create(e *entity.'' @ entity_name @ '') error\<newline>'',
        tab @ ''FindByID(id uint) (*entity.'' @ entity_name @ '', error)\<newline>'',
        tab @ ''FindAll(limit, offset int) ([]*entity.'' @ entity_name @ '', error)\<newline>'',
        tab @ ''Update(e *entity.'' @ entity_name @ '') error\<newline>'',
        tab @ ''Delete(id uint) error\<newline>'',
        tab @ ''Count() (int64, error)\<newline>'',
        ''}\<newline>''])\<close>

definition generate_repository_impl :: "string \<Rightarrow> string \<Rightarrow> string" where
  \<open>generate_repository_impl domain_name module_path =
    (let entity_name = capitalize domain_name;
         repo_name = entity_name @ ''Repository''
     in concat
       [''package repository\<newline>'',
        ''\<newline>'',
        ''import (\<newline>'',
        tab @ ''"gorm.io/gorm"\<newline>'',
        tab @ ''"'' @ module_path @ ''/internal/domain/entity"\<newline>'',
        tab @ ''"'' @ module_path @ ''/internal/domain/repository"\<newline>'',
        '')\<newline>'',
        ''\<newline>'',
        ''type '' @ (lower repo_name) @ '' struct {\<newline>'',
        tab @ ''db *gorm.DB\<newline>'',
        ''}\<newline>'',
        ''\<newline>'',
        ''func New'' @ repo_name @ ''(db *gorm.DB) repository.'' @ repo_name @ '' {\<newline>'',
        tab @ ''return &'' @ (lower repo_name) @ ''{db: db}\<newline>'',
        ''}\<newline>'',
        ''\<newline>'',
        ''func (r *'' @ (lower repo_name) @ '') Create(e *entity.'' @ entity_name @ '') error {\<newline>'',
        tab @ ''return r.db.Create(e).Error\<newline>'',
        ''}\<newline>'',
        ''\<newline>'',
        ''func (r *'' @ (lower repo_name) @ '') FindByID(id uint) (*entity.'' @ entity_name @ '', error) {\<newline>'',
        tab @ ''var entity entity.'' @ entity_name @ ''\<newline>'',
        tab @ ''if err := r.db.First(&entity, id).Error; err != nil {\<newline>'',
        tab @ tab @ ''return nil, err\<newline>'',
        tab @ ''}\<newline>'',
        tab @ ''return &entity, nil\<newline>'',
        ''}\<newline>'',
        ''\<newline>'',
        ''func (r *'' @ (lower repo_name) @ '') FindAll(limit, offset int) ([]*entity.'' @ entity_name @ '', error) {\<newline>'',
        tab @ ''var entities []*entity.'' @ entity_name @ ''\<newline>'',
        tab @ ''query := r.db.Model(&entity.'' @ entity_name @ ''{})\<newline>'',
        tab @ ''\<newline>'',
        tab @ ''if limit > 0 {\<newline>'',
        tab @ tab @ ''query = query.Limit(limit)\<newline>'',
        tab @ ''}\<newline>'',
        tab @ ''if offset > 0 {\<newline>'',
        tab @ tab @ ''query = query.Offset(offset)\<newline>'',
        tab @ ''}\<newline>'',
        tab @ ''\<newline>'',
        tab @ ''if err := query.Find(&entities).Error; err != nil {\<newline>'',
        tab @ tab @ ''return nil, err\<newline>'',
        tab @ ''}\<newline>'',
        tab @ ''return entities, nil\<newline>'',
        ''}\<newline>'',
        ''\<newline>'',
        ''func (r *'' @ (lower repo_name) @ '') Update(e *entity.'' @ entity_name @ '') error {\<newline>'',
        tab @ ''return r.db.Save(e).Error\<newline>'',
        ''}\<newline>'',
        ''\<newline>'',
        ''func (r *'' @ (lower repo_name) @ '') Delete(id uint) error {\<newline>'',
        tab @ ''return r.db.Delete(&entity.'' @ entity_name @ ''{}, id).Error\<newline>'',
        ''}\<newline>'',
        ''\<newline>'',
        ''func (r *'' @ (lower repo_name) @ '') Count() (int64, error) {\<newline>'',
        tab @ ''var count int64\<newline>'',
        tab @ ''if err := r.db.Model(&entity.'' @ entity_name @ ''{}).Count(&count).Error; err != nil {\<newline>'',
        tab @ tab @ ''return 0, err\<newline>'',
        tab @ ''}\<newline>'',
        tab @ ''return count, nil\<newline>'',
        ''}\<newline>''])\<close>

definition generate_usecase :: "string \<Rightarrow> string \<Rightarrow> string" where
  \<open>generate_usecase domain_name module_path =
    (let entity_name = capitalize domain_name;
         usecase_name = entity_name @ ''UseCase''
     in concat
       [''package usecase\<newline>'',
        ''\<newline>'',
        ''import (\<newline>'',
        tab @ ''"fmt"\<newline>'',
        tab @ ''\<newline>'',
        tab @ ''"'' @ module_path @ ''/internal/domain/entity"\<newline>'',
        tab @ ''"'' @ module_path @ ''/internal/domain/repository"\<newline>'',
        '')\<newline>'',
        ''\<newline>'',
        ''type '' @ usecase_name @ '' interface {\<newline>'',
        tab @ ''Create(e *entity.'' @ entity_name @ '') error\<newline>'',
        tab @ ''GetByID(id uint) (*entity.'' @ entity_name @ '', error)\<newline>'',
        tab @ ''GetAll(limit, offset int) ([]*entity.'' @ entity_name @ '', int64, error)\<newline>'',
        tab @ ''Update(id uint, e *entity.'' @ entity_name @ '') error\<newline>'',
        tab @ ''Delete(id uint) error\<newline>'',
        ''}\<newline>'',
        ''\<newline>'',
        ''type '' @ (lower usecase_name) @ '' struct {\<newline>'',
        tab @ ''repo repository.'' @ entity_name @ ''Repository\<newline>'',
        ''}\<newline>'',
        ''\<newline>'',
        ''func New'' @ usecase_name @ ''(repo repository.'' @ entity_name @ ''Repository) '' @ usecase_name @ '' {\<newline>'',
        tab @ ''return &'' @ (lower usecase_name) @ ''{repo: repo}\<newline>'',
        ''}\<newline>'',
        ''\<newline>'',
        ''func (u *'' @ (lower usecase_name) @ '') Create(e *entity.'' @ entity_name @ '') error {\<newline>'',
        tab @ ''// Add business logic here\<newline>'',
        tab @ ''if err := u.repo.Create(e); err != nil {\<newline>'',
        tab @ tab @ ''return fmt.Errorf("failed to create '' @ domain_name @ '': %w", err)\<newline>'',
        tab @ ''}\<newline>'',
        tab @ ''return nil\<newline>'',
        ''}\<newline>'',
        ''\<newline>'',
        ''func (u *'' @ (lower usecase_name) @ '') GetByID(id uint) (*entity.'' @ entity_name @ '', error) {\<newline>'',
        tab @ ''entity, err := u.repo.FindByID(id)\<newline>'',
        tab @ ''if err != nil {\<newline>'',
        tab @ tab @ ''return nil, fmt.Errorf("failed to get '' @ domain_name @ '': %w", err)\<newline>'',
        tab @ ''}\<newline>'',
        tab @ ''return entity, nil\<newline>'',
        ''}\<newline>'',
        ''\<newline>'',
        ''func (u *'' @ (lower usecase_name) @ '') GetAll(limit, offset int) ([]*entity.'' @ entity_name @ '', int64, error) {\<newline>'',
        tab @ ''entities, err := u.repo.FindAll(limit, offset)\<newline>'',
        tab @ ''if err != nil {\<newline>'',
        tab @ tab @ ''return nil, 0, fmt.Errorf("failed to get '' @ domain_name @ ''s: %w", err)\<newline>'',
        tab @ ''}\<newline>'',
        tab @ ''\<newline>'',
        tab @ ''count, err := u.repo.Count()\<newline>'',
        tab @ ''if err != nil {\<newline>'',
        tab @ tab @ ''return nil, 0, fmt.Errorf("failed to count '' @ domain_name @ ''s: %w", err)\<newline>'',
        tab @ ''}\<newline>'',
        tab @ ''\<newline>'',
        tab @ ''return entities, count, nil\<newline>'',
        ''}\<newline>'',
        ''\<newline>'',
        ''func (u *'' @ (lower usecase_name) @ '') Update(id uint, e *entity.'' @ entity_name @ '') error {\<newline>'',
        tab @ ''// Check if exists\<newline>'',
        tab @ ''existing, err := u.repo.FindByID(id)\<newline>'',
        tab @ ''if err != nil {\<newline>'',
        tab @ tab @ ''return fmt.Errorf("failed to find '' @ domain_name @ '': %w", err)\<newline>'',
        tab @ ''}\<newline>'',
        tab @ ''\<newline>'',
        tab @ ''// Update fields\<newline>'',
        tab @ ''e.ID = existing.ID\<newline>'',
        tab @ ''e.CreatedAt = existing.CreatedAt\<newline>'',
        tab @ ''\<newline>'',
        tab @ ''if err := u.repo.Update(e); err != nil {\<newline>'',
        tab @ tab @ ''return fmt.Errorf("failed to update '' @ domain_name @ '': %w", err)\<newline>'',
        tab @ ''}\<newline>'',
        tab @ ''return nil\<newline>'',
        ''}\<newline>'',
        ''\<newline>'',
        ''func (u *'' @ (lower usecase_name) @ '') Delete(id uint) error {\<newline>'',
        tab @ ''// Check if exists\<newline>'',
        tab @ ''if _, err := u.repo.FindByID(id); err != nil {\<newline>'',
        tab @ tab @ ''return fmt.Errorf("failed to find '' @ domain_name @ '': %w", err)\<newline>'',
        tab @ ''}\<newline>'',
        tab @ ''\<newline>'',
        tab @ ''if err := u.repo.Delete(id); err != nil {\<newline>'',
        tab @ tab @ ''return fmt.Errorf("failed to delete '' @ domain_name @ '': %w", err)\<newline>'',
        tab @ ''}\<newline>'',
        tab @ ''return nil\<newline>'',
        ''}\<newline>''])\<close>

definition generate_handler :: "string \<Rightarrow> string \<Rightarrow> string" where
  \<open>generate_handler domain_name module_path =
    (let entity_name = capitalize domain_name;
         handler_name = entity_name @ ''Handler''
     in concat
       [''package handler\<newline>'',
        ''\<newline>'',
        ''import (\<newline>'',
        tab @ ''"net/http"\<newline>'',
        tab @ ''"strconv"\<newline>'',
        tab @ ''\<newline>'',
        tab @ ''"github.com/gin-gonic/gin"\<newline>'',
        tab @ ''"'' @ module_path @ ''/internal/domain/entity"\<newline>'',
        tab @ ''"'' @ module_path @ ''/internal/usecase"\<newline>'',
        tab @ ''"'' @ module_path @ ''/pkg/response"\<newline>'',
        '')\<newline>'',
        ''\<newline>'',
        ''type '' @ handler_name @ '' struct {\<newline>'',
        tab @ ''useCase usecase.'' @ entity_name @ ''UseCase\<newline>'',
        ''}\<newline>'',
        ''\<newline>'',
        ''func New'' @ handler_name @ ''(useCase usecase.'' @ entity_name @ ''UseCase) *'' @ handler_name @ '' {\<newline>'',
        tab @ ''return &'' @ handler_name @ ''{useCase: useCase}\<newline>'',
        ''}\<newline>'',
        ''\<newline>'',
        ''func (h *'' @ handler_name @ '') RegisterRoutes(router *gin.RouterGroup) {\<newline>'',
        tab @ domain_name @ ''s := router.Group("/'' @ (to_snake_case domain_name) @ ''s")\<newline>'',
        tab @ ''{\<newline>'',
        tab @ tab @ domain_name @ ''s.POST("", h.Create)\<newline>'',
        tab @ tab @ domain_name @ ''s.GET("", h.GetAll)\<newline>'',
        tab @ tab @ domain_name @ ''s.GET("/:id", h.GetByID)\<newline>'',
        tab @ tab @ domain_name @ ''s.PUT("/:id", h.Update)\<newline>'',
        tab @ tab @ domain_name @ ''s.DELETE("/:id", h.Delete)\<newline>'',
        tab @ ''}\<newline>'',
        ''}\<newline>'',
        ''\<newline>'',
        ''func (h *'' @ handler_name @ '') Create(c *gin.Context) {\<newline>'',
        tab @ ''var req entity.'' @ entity_name @ ''\<newline>'',
        tab @ ''if err := c.ShouldBindJSON(&req); err != nil {\<newline>'',
        tab @ tab @ ''response.Error(c, http.StatusBadRequest, "Invalid request body", err)\<newline>'',
        tab @ tab @ ''return\<newline>'',
        tab @ ''}\<newline>'',
        tab @ ''\<newline>'',
        tab @ ''if err := h.useCase.Create(&req); err != nil {\<newline>'',
        tab @ tab @ ''response.Error(c, http.StatusInternalServerError, "Failed to create '' @ domain_name @ ''", err)\<newline>'',
        tab @ tab @ ''return\<newline>'',
        tab @ ''}\<newline>'',
        tab @ ''\<newline>'',
        tab @ ''response.Success(c, http.StatusCreated, "'' @ entity_name @ '' created successfully", req)\<newline>'',
        ''}\<newline>'',
        ''\<newline>'',
        ''func (h *'' @ handler_name @ '') GetByID(c *gin.Context) {\<newline>'',
        tab @ ''id, err := strconv.ParseUint(c.Param("id"), 10, 32)\<newline>'',
        tab @ ''if err != nil {\<newline>'',
        tab @ tab @ ''response.Error(c, http.StatusBadRequest, "Invalid ID", err)\<newline>'',
        tab @ tab @ ''return\<newline>'',
        tab @ ''}\<newline>'',
        tab @ ''\<newline>'',
        tab @ ''entity, err := h.useCase.GetByID(uint(id))\<newline>'',
        tab @ ''if err != nil {\<newline>'',
        tab @ tab @ ''response.Error(c, http.StatusNotFound, "'' @ entity_name @ '' not found", err)\<newline>'',
        tab @ tab @ ''return\<newline>'',
        tab @ ''}\<newline>'',
        tab @ ''\<newline>'',
        tab @ ''response.Success(c, http.StatusOK, "'' @ entity_name @ '' retrieved successfully", entity)\<newline>'',
        ''}\<newline>'',
        ''\<newline>'',
        ''func (h *'' @ handler_name @ '') GetAll(c *gin.Context) {\<newline>'',
        tab @ ''limit, _ := strconv.Atoi(c.DefaultQuery("limit", "10"))\<newline>'',
        tab @ ''offset, _ := strconv.Atoi(c.DefaultQuery("offset", "0"))\<newline>'',
        tab @ ''\<newline>'',
        tab @ ''entities, total, err := h.useCase.GetAll(limit, offset)\<newline>'',
        tab @ ''if err != nil {\<newline>'',
        tab @ tab @ ''response.Error(c, http.StatusInternalServerError, "Failed to get '' @ domain_name @ ''s", err)\<newline>'',
        tab @ tab @ ''return\<newline>'',
        tab @ ''}\<newline>'',
        tab @ ''\<newline>'',
        tab @ ''response.Success(c, http.StatusOK, "'' @ entity_name @ ''s retrieved successfully", gin.H{\<newline>'',
        tab @ tab @ ''"items": entities,\<newline>'',
        tab @ tab @ ''"total": total,\<newline>'',
        tab @ tab @ ''"limit": limit,\<newline>'',
        tab @ tab @ ''"offset": offset,\<newline>'',
        tab @ ''})\<newline>'',
        ''}\<newline>'',
        ''\<newline>'',
        ''func (h *'' @ handler_name @ '') Update(c *gin.Context) {\<newline>'',
        tab @ ''id, err := strconv.ParseUint(c.Param("id"), 10, 32)\<newline>'',
        tab @ ''if err != nil {\<newline>'',
        tab @ tab @ ''response.Error(c, http.StatusBadRequest, "Invalid ID", err)\<newline>'',
        tab @ tab @ ''return\<newline>'',
        tab @ ''}\<newline>'',
        tab @ ''\<newline>'',
        tab @ ''var req entity.'' @ entity_name @ ''\<newline>'',
        tab @ ''if err := c.ShouldBindJSON(&req); err != nil {\<newline>'',
        tab @ tab @ ''response.Error(c, http.StatusBadRequest, "Invalid request body", err)\<newline>'',
        tab @ tab @ ''return\<newline>'',
        tab @ ''}\<newline>'',
        tab @ ''\<newline>'',
        tab @ ''if err := h.useCase.Update(uint(id), &req); err != nil {\<newline>'',
        tab @ tab @ ''response.Error(c, http.StatusInternalServerError, "Failed to update '' @ domain_name @ ''", err)\<newline>'',
        tab @ tab @ ''return\<newline>'',
        tab @ ''}\<newline>'',
        tab @ ''\<newline>'',
        tab @ ''response.Success(c, http.StatusOK, "'' @ entity_name @ '' updated successfully", req)\<newline>'',
        ''}\<newline>'',
        ''\<newline>'',
        ''func (h *'' @ handler_name @ '') Delete(c *gin.Context) {\<newline>'',
        tab @ ''id, err := strconv.ParseUint(c.Param("id"), 10, 32)\<newline>'',
        tab @ ''if err != nil {\<newline>'',
        tab @ tab @ ''response.Error(c, http.StatusBadRequest, "Invalid ID", err)\<newline>'',
        tab @ tab @ ''return\<newline>'',
        tab @ ''}\<newline>'',
        tab @ ''\<newline>'',
        tab @ ''if err := h.useCase.Delete(uint(id)); err != nil {\<newline>'',
        tab @ tab @ ''response.Error(c, http.StatusInternalServerError, "Failed to delete '' @ domain_name @ ''", err)\<newline>'',
        tab @ tab @ ''return\<newline>'',
        tab @ ''}\<newline>'',
        tab @ ''\<newline>'',
        tab @ ''response.Success(c, http.StatusOK, "'' @ entity_name @ '' deleted successfully", nil)\<newline>'',
        ''}\<newline>''])\<close>

section \<open>Paths, the file system and the process\<close>

subsection \<open>\<open>pathlib\<close> paths\<close>

text \<open>
  A \<open>pathlib.Path\<close> on POSIX: its root (empty for a relative path, \<open>/\<close> or \<open>//\<close>) and
  the parts after the root. Parsing a string drops empty parts and \<open>.\<close>, and keeps \<open>..\<close>.
\<close>

datatype Path = Path (path_root: string) (path_parts: "string list")

definition root_of :: "string \<Rightarrow> string" where
  "root_of s =
    (if startswith s ''//'' \<and> \<not> startswith s ''///'' then ''//''
     else if startswith s ''/'' then ''/''
     else '''')"

definition Path_of :: "string \<Rightarrow> Path" where
  "Path_of s = Path (root_of s) (filter (\<lambda>x. x \<noteq> [] \<and> x \<noteq> ''.'') (split_char CHR ''/'' s))"

text \<open>\<open>p / s\<close>: an absolute \<open>s\<close> replaces \<open>p\<close>.\<close>

definition path_div :: "Path \<Rightarrow> string \<Rightarrow> Path" where
  "path_div p s =
    (let q = Path_of s in
     if path_root q \<noteq> [] then q else Path (path_root p) (path_parts p @ path_parts q))"

definition path_str :: "Path \<Rightarrow> string" where
  "path_str p =
    (if path_root p = [] \<and> path_parts p = [] then ''.''
     else path_root p @ join ''/'' (path_parts p))"

definition path_parent :: "Path \<Rightarrow> Path" where
  "path_parent p = Path (path_root p) (butlast (path_parts p))"

definition path_name :: "Path \<Rightarrow> string" where
  "path_name p = (if path_parts p = [] then [] else last (path_parts p))"

subsection \<open>Exceptions\<close>

text \<open>
  The exceptions the scripts can raise, \<open>sys.exit(n)\<close> among them. No script catches
  one: an exception ends the process, with status \<open>n\<close> for \<open>SystemExit n\<close> and status 1
  (after the traceback) for any other.
\<close>

datatype exn =
  SystemExit nat
  | FileNotFoundError
  | FileExistsError
  | NotADirectoryError
  | IsADirectoryError
  | ValueError
  | IndexError
  | EOFError
  | KeyError
  | UnicodeDecodeError

definition relative_to :: "Path \<Rightarrow> Path \<Rightarrow> exn + Path" where
  "relative_to p other =
    (if path_root p = path_root other \<and>
        take (length (path_parts other)) (path_parts p) = path_parts other
     then Inr (Path [] (drop (length (path_parts other)) (path_parts p)))
     else Inl ValueError)"

subsection \<open>The file system\<close>

text \<open>
  A POSIX file system without symbolic links, permissions or a size limit: the working
  directory, the set of directories and the regular files with their contents, each
  named by its list of components from the root. The root is the empty list and always
  a directory.
\<close>

datatype filesystem =
  Filesystem (fs_cwd: "string list") (fs_dirs: "string list set")
    (fs_files: "string list \<rightharpoonup> string")

definition isdir_at :: "filesystem \<Rightarrow> string list \<Rightarrow> bool" where
  "isdir_at fs a = (a = [] \<or> a \<in> fs_dirs fs)"

definition isfile_at :: "filesystem \<Rightarrow> string list \<Rightarrow> bool" where
  "isfile_at fs a = (\<not> isdir_at fs a \<and> fs_files fs a \<noteq> None)"

text \<open>
  Path resolution as the kernel does it: every component is looked up in a directory
  that must exist, and \<open>..\<close> goes to the parent (the root is its own parent). The last
  component itself need not exist.
\<close>

fun walk :: "filesystem \<Rightarrow> string list \<Rightarrow> string list \<Rightarrow> exn + string list" where
  "walk fs cur [] = Inr cur"
| "walk fs cur (n # ns) =
    (if isdir_at fs cur then walk fs (if n = ''..'' then butlast cur else cur @ [n]) ns
     else if isfile_at fs cur then Inl NotADirectoryError
     else Inl FileNotFoundError)"

definition resolve :: "filesystem \<Rightarrow> Path \<Rightarrow> exn + string list" where
  "resolve fs p = walk fs (if path_root p = [] then fs_cwd fs else []) (path_parts p)"

text \<open>\<open>p.exists()\<close> and \<open>p.is_dir()\<close>: false when the path cannot be resolved.\<close>

definition path_exists :: "filesystem \<Rightarrow> Path \<Rightarrow> bool" where
  "path_exists fs p =
    (case resolve fs p of Inl e \<Rightarrow> False | Inr a \<Rightarrow> isdir_at fs a \<or> isfile_at fs a)"

definition path_is_dir :: "filesystem \<Rightarrow> Path \<Rightarrow> bool" where
  "path_is_dir fs p = (case resolve fs p of Inl e \<Rightarrow> False | Inr a \<Rightarrow> isdir_at fs a)"

text \<open>\<open>os.mkdir(p)\<close>: one new directory, in a parent that exists.\<close>

definition os_mkdir :: "filesystem \<Rightarrow> Path \<Rightarrow> exn + filesystem" where
  "os_mkdir fs p =
    (case resolve fs p of
       Inl e \<Rightarrow> Inl e
     | Inr a \<Rightarrow>
         if isdir_at fs a \<or> isfile_at fs a then Inl FileExistsError
         else if isdir_at fs (butlast a)
           then Inr (Filesystem (fs_cwd fs) (insert a (fs_dirs fs)) (fs_files fs))
         else Inl FileNotFoundError)"

text \<open>
  \<open>Path.mkdir(parents, exist_ok)\<close> as \<open>pathlib\<close> implements it: try \<open>os.mkdir\<close>; on
  \<open>FileNotFoundError\<close> make the parent with \<open>parents=True, exist_ok=True\<close> and try
  again without \<open>parents\<close>; any other error is dropped when \<open>exist_ok\<close> is set and the
  path is a directory.
\<close>

function Path_mkdir :: "bool \<Rightarrow> bool \<Rightarrow> filesystem \<Rightarrow> Path \<Rightarrow> exn + filesystem" where
  "Path_mkdir parents exist_ok fs p =
    (case os_mkdir fs p of
       Inr fs' \<Rightarrow> Inr fs'
     | Inl e \<Rightarrow>
         if e = FileNotFoundError then
           (if parents \<and> path_parent p \<noteq> p then
              (case Path_mkdir True True fs (path_parent p) of
                 Inl e' \<Rightarrow> Inl e'
               | Inr fs' \<Rightarrow> Path_mkdir False exist_ok fs' p)
            else Inl e)
         else if exist_ok \<and> path_is_dir fs p then Inr fs
         else Inl e)"
  by pat_completeness auto
termination
proof (relation "measure (\<lambda>(parents, exist_ok, fs, p).
                   2 * length (path_parts p) + (if parents then 1 else 0))")
  show "wf (measure (\<lambda>(parents, exist_ok, fs, p).
              2 * length (path_parts p) + (if parents then 1 else 0)))"
    by simp
next
  fix parents exist_ok :: bool and fs :: filesystem and p :: Path and e :: exn
  assume "parents \<and> path_parent p \<noteq> p"
  then have "path_parts p \<noteq> []"
    by (cases p) (auto simp: path_parent_def)
  then show "((True, True, fs, path_parent p), (parents, exist_ok, fs, p))
      \<in> measure (\<lambda>(parents, exist_ok, fs, p).
            2 * length (path_parts p) + (if parents then 1 else 0))"
    by (cases "path_parts p") (auto simp: path_parent_def)
next
  fix parents exist_ok :: bool and fs fs' :: filesystem and p :: Path and e :: exn
  assume "parents \<and> path_parent p \<noteq> p"
  then show "((False, exist_ok, fs', p), (parents, exist_ok, fs, p))
      \<in> measure (\<lambda>(parents, exist_ok, fs, p).
            2 * length (path_parts p) + (if parents then 1 else 0))"
    by simp
qed

declare Path_mkdir.simps [simp del]

text \<open>
  What a successful \<open>mkdir\<close> leaves: the files and the working directory as they were,
  no directory removed, and the path itself a directory.
\<close>

definition mkdir_post :: "filesystem \<Rightarrow> filesystem \<Rightarrow> Path \<Rightarrow> bool" where
  "mkdir_post fs fs1 p =
    (fs_files fs1 = fs_files fs \<and> fs_cwd fs1 = fs_cwd fs \<and> fs_dirs fs \<subseteq> fs_dirs fs1 \<and>
     (\<exists>a. resolve fs1 p = Inr a \<and> isdir_at fs1 a))"


text \<open>
  Reading in text mode decodes the stored bytes as UTF-8 (the encoding of the locale is
  taken to be UTF-8) and raises \<open>UnicodeDecodeError\<close> on bytes that are not
  well-formed; then \<open>\r\n\<close> and \<open>\r\<close> are read as \<open>\n\<close>.
\<close>

definition in_range :: "char \<Rightarrow> nat \<Rightarrow> nat \<Rightarrow> bool" where
  "in_range c lo hi = (lo \<le> of_char c \<and> of_char c \<le> hi)"

fun utf8_valid :: "string \<Rightarrow> bool" where
  "utf8_valid [] = True"
| "utf8_valid (c # cs) =
    (let n = (of_char c :: nat) in
     if n < 128 then utf8_valid cs
     else if 194 \<le> n \<and> n \<le> 223 then
       (case cs of
          c1 # r \<Rightarrow> in_range c1 128 191 \<and> utf8_valid r
        | _ \<Rightarrow> False)
     else if 224 \<le> n \<and> n \<le> 239 then
       (case cs of
          c1 # c2 # r \<Rightarrow>
            in_range c1 (if n = 224 then 160 else 128) (if n = 237 then 159 else 191) \<and>
            in_range c2 128 191 \<and> utf8_valid r
        | _ \<Rightarrow> False)
     else if 240 \<le> n \<and> n \<le> 244 then
       (case cs of
          c1 # c2 # c3 # r \<Rightarrow>
            in_range c1 (if n = 240 then 144 else 128) (if n = 244 then 143 else 191) \<and>
            in_range c2 128 191 \<and> in_range c3 128 191 \<and> utf8_valid r
        | _ \<Rightarrow> False)
     else False)"

fun universal_newlines :: "string \<Rightarrow> string" where
  "universal_newlines [] = []"
| "universal_newlines [c] = (if c = CHR 0x0D then [CHR 0x0A] else [c])"
| "universal_newlines (c # d # cs) =
    (if c = CHR 0x0D \<and> d = CHR 0x0A then CHR 0x0A # universal_newlines cs
     else if c = CHR 0x0D then CHR 0x0A # universal_newlines (d # cs)
     else c # universal_newlines (d # cs))"

definition decode_text :: "string \<Rightarrow> exn + string" where
  "decode_text data =
    (if utf8_valid data then Inr (universal_newlines data) else Inl UnicodeDecodeError)"

text \<open>
  \<open>p.write_text(data)\<close> replaces the file's content, \<open>p.read_text()\<close> (and \<open>open(p, 'r')\<close>
  read to its end) returns the content as text, and \<open>open(p, 'a')\<close> followed by
  \<open>write(data)\<close> appends to it (creating the file). None of them creates a directory.
\<close>

definition write_text :: "filesystem \<Rightarrow> Path \<Rightarrow> string \<Rightarrow> exn + filesystem" where
  "write_text fs p data =
    (case resolve fs p of
       Inl e \<Rightarrow> Inl e
     | Inr a \<Rightarrow>
         if isdir_at fs a then Inl IsADirectoryError
         else if isdir_at fs (butlast a)
           then Inr (Filesystem (fs_cwd fs) (fs_dirs fs) ((fs_files fs)(a \<mapsto> data)))
         else Inl FileNotFoundError)"

definition read_text :: "filesystem \<Rightarrow> Path \<Rightarrow> exn + string" where
  "read_text fs p =
    (case resolve fs p of
       Inl e \<Rightarrow> Inl e
     | Inr a \<Rightarrow>
         if isdir_at fs a then Inl IsADirectoryError
         else (case fs_files fs a of
                 None \<Rightarrow> Inl FileNotFoundError
               | Some data \<Rightarrow> decode_text data))"

definition append_text :: "filesystem \<Rightarrow> Path \<Rightarrow> string \<Rightarrow> exn + filesystem" where
  "append_text fs p data =
    (case resolve fs p of
       Inl e \<Rightarrow> Inl e
     | Inr a \<Rightarrow>
         if isdir_at fs a then Inl IsADirectoryError
         else if isdir_at fs (butlast a)
           then Inr (Filesystem (fs_cwd fs) (fs_dirs fs)
                  ((fs_files fs)(a \<mapsto> (case fs_files fs a of None \<Rightarrow> [] | Some old \<Rightarrow> old) @ data)))
         else Inl FileNotFoundError)"

text \<open>The lines of a text, as iterating over an open file gives them: each keeps its \<open>\n\<close>.\<close>

fun lines_from :: "string \<Rightarrow> string \<Rightarrow> string list" where
  "lines_from cur [] = (if cur = [] then [] else [cur])"
| "lines_from cur (c # cs) =
    (if c = CHR 0x0A then (cur @ [c]) # lines_from [] cs else lines_from (cur @ [c]) cs)"

definition readlines :: "string \<Rightarrow> string list" where
  "readlines content = lines_from [] content"

subsection \<open>The process\<close>

text \<open>
  The state a script runs in: the file system, the texts written to standard output
  (one entry for each call of \<open>print\<close>, without the newline that \<open>print\<close> adds, and one
  for the prompt of each \<open>input\<close>), and the lines still to be read from standard input.
  An action returns a value or raises, and leaves a state either way: what was written
  before an exception stays written.
\<close>

datatype world = World (w_fs: filesystem) (w_out: "string list") (w_stdin: "string list")

type_synonym 'a io = "world \<Rightarrow> (exn + 'a) \<times> world"

definition io_return :: "'a \<Rightarrow> 'a io" where
  "io_return x w = (Inr x, w)"

definition io_raise :: "exn \<Rightarrow> 'a io" where
  "io_raise e w = (Inl e, w)"

definition io_bind :: "'a io \<Rightarrow> ('a \<Rightarrow> 'b io) \<Rightarrow> 'b io" where
  "io_bind m k w = (case m w of (Inl e, w') \<Rightarrow> (Inl e, w') | (Inr x, w') \<Rightarrow> k x w')"

definition io_then :: "unit io \<Rightarrow> 'b io \<Rightarrow> 'b io" where
  "io_then m k = io_bind m (\<lambda>u. k)"

text \<open>A block of statements, run in order up to the first exception.\<close>

fun io_seq :: "unit io list \<Rightarrow> unit io" where
  "io_seq [] = io_return ()"
| "io_seq (m # ms) = io_then m (io_seq ms)"

definition print :: "string \<Rightarrow> unit io" where
  "print s w = (Inr (), World (w_fs w) (w_out w @ [s]) (w_stdin w))"

definition input :: "string \<Rightarrow> string io" where
  "input prompt w =
    (case w_stdin w of
       [] \<Rightarrow> (Inl EOFError, World (w_fs w) (w_out w @ [prompt]) [])
     | l # ls \<Rightarrow> (Inr l, World (w_fs w) (w_out w @ [prompt]) ls))"

definition io_raise_or_return :: "exn + 'a \<Rightarrow> 'a io" where
  "io_raise_or_return r w = (r, w)"

definition sys_exit :: "nat \<Rightarrow> 'a io" where
  "sys_exit n = io_raise (SystemExit n)"

text \<open>An operation that changes the file system, and one that only reads it.\<close>

definition fs_update :: "(filesystem \<Rightarrow> exn + filesystem) \<Rightarrow> unit io" where
  "fs_update f w =
    (case f (w_fs w) of
       Inl e \<Rightarrow> (Inl e, w)
     | Inr fs' \<Rightarrow> (Inr (), World fs' (w_out w) (w_stdin w)))"

definition fs_read :: "(filesystem \<Rightarrow> exn + 'a) \<Rightarrow> 'a io" where
  "fs_read f w = (f (w_fs w), w)"

definition fs_test :: "(filesystem \<Rightarrow> bool) \<Rightarrow> bool io" where
  "fs_test f w = (Inr (f (w_fs w)), w)"

text \<open>The exit status of the process, from what \<open>main\<close> returned or raised.\<close>

fun exit_status :: "exn + 'a \<Rightarrow> nat" where
  "exit_status (Inr x) = 0"
| "exit_status (Inl (SystemExit n)) = n"
| "exit_status (Inl e) = 1"

subsection \<open>Printed symbols\<close>

text \<open>
  The symbols the scripts print before their messages, as the UTF-8 bytes of the
  characters their source files hold. The files of \<open>gin-developer\<close> and
  \<open>monorepo-developer\<close> store these symbols decoded twice (\<open>cp_\<close> and \<open>mr_\<close> below);
  \<open>react-developer\<close> stores them as they are meant (\<open>u_\<close>).
\<close>

abbreviation cp_rocket :: string where
  "cp_rocket \<equiv> [CHR 0xC3, CHR 0xB0, CHR 0xC5, CHR 0xB8, CHR 0xC5, CHR 0xA1, CHR 0xE2, CHR 0x82, CHR 0xAC]"

abbreviation cp_cross :: string where
  "cp_cross \<equiv> [CHR 0xC3, CHR 0xA2, CHR 0xC5, CHR 0x93, CHR 0xE2, CHR 0x80, CHR 0x94]"

abbreviation cp_check :: string where
  "cp_check \<equiv> [CHR 0xC3, CHR 0xA2, CHR 0xC5, CHR 0x93, CHR 0xE2, CHR 0x80, CHR 0x9C]"

abbreviation cp_package :: string where
  "cp_package \<equiv> [CHR 0xC3, CHR 0xB0, CHR 0xC5, CHR 0xB8, CHR 0xE2, CHR 0x80, CHR 0x9C, CHR 0xC2, CHR 0xA6]"

abbreviation cp_done :: string where
  "cp_done \<equiv> [CHR 0xC3, CHR 0xA2, CHR 0xC5, CHR 0x93, CHR 0xE2, CHR 0x80, CHR 0xA6]"

abbreviation mr_rocket :: string where
  "mr_rocket \<equiv> [CHR 0xEF, CHR 0xA3, CHR 0xBF, CHR 0xC3, CHR 0xBC, CHR 0xC3, CHR 0xB6, CHR 0xC3, CHR 0x84]"

abbreviation mr_package :: string where
  "mr_package \<equiv> [CHR 0xEF, CHR 0xA3, CHR 0xBF, CHR 0xC3, CHR 0xBC, CHR 0xC3, CHR 0xAC, CHR 0xC2, CHR 0xB6]"

abbreviation mr_memo :: string where
  "mr_memo \<equiv> [CHR 0xEF, CHR 0xA3, CHR 0xBF, CHR 0xC3, CHR 0xBC, CHR 0xC3, CHR 0xAC, CHR 0xC3, CHR 0xB9]"

abbreviation mr_check :: string where
  "mr_check \<equiv> [CHR 0xE2, CHR 0x80, CHR 0x9A, CHR 0xC3, CHR 0xBA, CHR 0xC3, CHR 0xAC]"

abbreviation mr_done :: string where
  "mr_done \<equiv> [CHR 0xE2, CHR 0x80, CHR 0x9A, CHR 0xC3, CHR 0xBA, CHR 0xC3, CHR 0x96]"

abbreviation u_rocket :: string where
  "u_rocket \<equiv> [CHR 0xF0, CHR 0x9F, CHR 0x9A, CHR 0x80]"

abbreviation u_warning :: string where
  "u_warning \<equiv> [CHR 0xE2, CHR 0x9A, CHR 0xA0]"

abbreviation u_check :: string where
  "u_check \<equiv> [CHR 0xE2, CHR 0x9C, CHR 0x93]"

abbreviation u_memo :: string where
  "u_memo \<equiv> [CHR 0xF0, CHR 0x9F, CHR 0x93, CHR 0x9D]"

abbreviation u_cross :: string where
  "u_cross \<equiv> [CHR 0xE2, CHR 0x9C, CHR 0x97]"

abbreviation u_done :: string where
  "u_done \<equiv> [CHR 0xE2, CHR 0x9C, CHR 0x85]"

subsection \<open>Command lines\<close>

text \<open>
  \<open>argparse\<close> is modelled by what it does with the arguments a script declares: an
  optional argument that is absent (\<open>None\<close>) gets its default, and a required argument
  that is absent, or an argument outside its \<open>choices\<close>, ends the process with status
  2 (\<open>argparse\<close> writes its usage message to standard error, which is not modelled).
\<close>

definition arg_default :: "string option \<Rightarrow> string \<Rightarrow> string" where
  "arg_default a d = (case a of None \<Rightarrow> d | Some v \<Rightarrow> v)"

subsection \<open>\<open>main\<close> of generate_domain.py\<close>

text \<open>The command line: \<open>domain_name\<close>, \<open>--fields\<close> and \<open>--project-path\<close>.\<close>

datatype domain_argv =
  Domain_argv (dargv_domain_name: "string option") (dargv_fields: "string option")
    (dargv_project_path: "string option")

text \<open>
  The loop over the lines of \<open>go.mod\<close>: the first line that starts with \<open>module\<close> and a
  space gives the module path, its second word; \<open>line.split()[1]\<close> raises \<open>IndexError\<close>
  when the line has no second word.
\<close>

fun find_module_path :: "string list \<Rightarrow> exn + string" where
  "find_module_path [] = Inr []"
| "find_module_path (line # rest) =
    (if startswith line ''module '' then
       (case split_ws line of
          a # b # ws \<Rightarrow> Inr (strip b)
        | _ \<Rightarrow> Inl IndexError)
     else find_module_path rest)"

definition generate_domain_main :: "domain_argv \<Rightarrow> unit io" where
  \<open>generate_domain_main argv =
    (case dargv_domain_name argv of
       None \<Rightarrow> sys_exit 2
     | Some domain_name_arg \<Rightarrow>
    (let domain_name = lower domain_name_arg;
         project_path = Path_of (arg_default (dargv_project_path argv) ''.'');
         fields = parse_fields (arg_default (dargv_fields argv) '''');
         go_mod_path = path_div project_path ''go.mod''
     in io_bind (fs_test (\<lambda>fs. path_exists fs go_mod_path)) (\<lambda>go_mod_exists.
        if \<not> go_mod_exists then
          io_then (print ''Error: go.mod not found. Make sure you\'re in the project root.'')
            (sys_exit 1)
        else
        io_bind (fs_read (\<lambda>fs. read_text fs go_mod_path)) (\<lambda>go_mod.
        case find_module_path (readlines go_mod) of
          Inl e \<Rightarrow> io_raise e
        | Inr module_path \<Rightarrow>
        if module_path = [] then
          io_then (print ''Error: Could not determine module path from go.mod'') (sys_exit 1)
        else
        (let entity_name = capitalize domain_name;
             entity_path =
               path_div (path_div project_path ''internal/domain/entity'') (domain_name @ ''.go'');
             repo_interface_path =
               path_div (path_div project_path ''internal/domain/repository'')
                 (domain_name @ ''_repository.go'');
             repo_impl_path =
               path_div (path_div project_path ''internal/infrastructure/repository'')
                 (domain_name @ ''_repository.go'');
             usecase_path =
               path_div (path_div project_path ''internal/usecase'') (domain_name @ ''_usecase.go'');
             handler_path =
               path_div (path_div project_path ''internal/handler'') (domain_name @ ''_handler.go'')
         in io_seq
          [print (''\<newline>'' @ mr_rocket @ '' Generating domain: '' @ domain_name),
           print (mr_package @ '' Module path: '' @ module_path),
           print (mr_memo @ '' Fields: '' @ str_of_nat (length fields) @ ''\<newline>''),
           fs_update (\<lambda>fs. write_text fs entity_path
             (generate_entity domain_name fields module_path)),
           print (mr_check @ '' Created entity: '' @ path_str entity_path),
           fs_update (\<lambda>fs. write_text fs repo_interface_path
             (generate_repository_interface domain_name module_path)),
           print (mr_check @ '' Created repository interface: '' @ path_str repo_interface_path),
           fs_update (\<lambda>fs. write_text fs repo_impl_path
             (generate_repository_impl domain_name module_path)),
           print (mr_check @ '' Created repository implementation: '' @ path_str repo_impl_path),
           fs_update (\<lambda>fs. write_text fs usecase_path
             (generate_usecase domain_name module_path)),
           print (mr_check @ '' Created use case: '' @ path_str usecase_path),
           fs_update (\<lambda>fs. write_text fs handler_path
             (generate_handler domain_name module_path)),
           print (mr_check @ '' Created handler: '' @ path_str handler_path),
           print (''\<newline>'' @ mr_done @ '' Domain '' @ sq @ domain_name @ ''\' generated successfully!''),
           print (''\<newline>Next steps:''),
           print (''  1. Add migration in cmd/api/main.go:''),
           print (''     db.AutoMigrate(&entity.'' @ entity_name @ ''{})''),
           print (''  2. Register routes in cmd/api/main.go:''),
           print (''     '' @ domain_name @ ''Repo := repository.New'' @ entity_name @ ''Repository(db)''),
           print (''     '' @ domain_name @ ''UseCase := usecase.New'' @ entity_name @ ''UseCase('' @ domain_name @ ''Repo)''),
           print (''     '' @ domain_name @ ''Handler := handler.New'' @ entity_name @ ''Handler('' @ domain_name @ ''UseCase)''),
           print (''     '' @ domain_name @ ''Handler.RegisterRoutes(v1)''),
           print (''  3. Run: go mod tidy''),
           print (''  4. Test endpoints at: http://localhost:8080/api/v1/'' @ to_snake_case domain_name @ ''s'')])))))\<close>

section \<open>The infrastructure generator (gin-developer/scripts/add_infrastructure.py)\<close>

definition SUPPORTED_TYPES :: "(string \<times> string list) list" where
  "SUPPORTED_TYPES =
    [(''storage'', [''local'', ''s3'', ''gcs'']),
     (''cache'', [''redis'', ''memory'']),
     (''queue'', [''redis'', ''kafka'', ''rabbitmq'']),
     (''email'', [''smtp'', ''sendgrid''])]"

subsection \<open>The templates\<close>

definition get_storage_interface :: string where
  \<open>get_storage_interface = concat
    [''package storage\<newline>'',
     ''\<newline>'',
     ''import (\<newline>'',
     tab @ ''"context"\<newline>'',
     tab @ ''"io"\<newline>'',
     '')\<newline>'',
     ''\<newline>'',
     ''// Storage defines the interface for file storage operations\<newline>'',
     ''type Storage interface {\<newline>'',
     tab @ ''// Upload uploads a file to storage\<newline>'',
     tab @ ''Upload(ctx context.Context, key string, reader io.Reader) error\<newline>'',
     ''\<newline>'',
     tab @ ''// Download downloads a file from storage\<newline>'',
     tab @ ''Download(ctx context.Context, key string) (io.ReadCloser, error)\<newline>'',
     ''\<newline>'',
     tab @ ''// Delete deletes a file from storage\<newline>'',
     tab @ ''Delete(ctx context.Context, key string) error\<newline>'',
     ''\<newline>'',
     tab @ ''// Exists checks if a file exists in storage\<newline>'',
     tab @ ''Exists(ctx context.Context, key string) (bool, error)\<newline>'',
     ''\<newline>'',
     tab @ ''// GetURL gets the public URL of a file\<newline>'',
     tab @ ''GetURL(ctx context.Context, key string) (string, error)\<newline>'',
     ''}\<newline>'']\<close>

definition get_storage_local :: string where
  \<open>get_storage_local = concat
    [''package storage\<newline>'',
     ''\<newline>'',
     ''import (\<newline>'',
     tab @ ''"context"\<newline>'',
     tab @ ''"fmt"\<newline>'',
     tab @ ''"io"\<newline>'',
     tab @ ''"os"\<newline>'',
     tab @ ''"path/filepath"\<newline>'',
     '')\<newline>'',
     ''\<newline>'',
     ''type LocalStorage struct {\<newline>'',
     tab @ ''basePath string\<newline>'',
     tab @ ''baseURL  string\<newline>'',
     ''}\<newline>'',
     ''\<newline>'',
     ''func NewLocalStorage(basePath, baseURL string) *LocalStorage {\<newline>'',
     tab @ ''return &LocalStorage{\<newline>'',
     tab @ tab @ ''basePath: basePath,\<newline>'',
     tab @ tab @ ''baseURL:  baseURL,\<newline>'',
     tab @ ''}\<newline>'',
     ''}\<newline>'',
     ''\<newline>'',
     ''func (s *LocalStorage) Upload(ctx context.Context, key string, reader io.Reader) error {\<newline>'',
     tab @ ''filePath := filepath.Join(s.basePath, key)\<newline>'',
     ''\<newline>'',
     tab @ ''// Create directory if not exists\<newline>'',
     tab @ ''dir := filepath.Dir(filePath)\<newline>'',
     tab @ ''if err := os.MkdirAll(dir, 0755); err != nil {\<newline>'',
     tab @ tab @ ''return fmt.Errorf("failed to create directory: %w", err)\<newline>'',
     tab @ ''}\<newline>'',
     ''\<newline>'',
     tab @ ''// Create file\<newline>'',
     tab @ ''file, err := os.Create(filePath)\<newline>'',
     tab @ ''if err != nil {\<newline>'',
     tab @ tab @ ''return fmt.Errorf("failed to create file: %w", err)\<newline>'',
     tab @ ''}\<newline>'',
     tab @ ''defer file.Close()\<newline>'',
     ''\<newline>'',
     tab @ ''// Copy data\<newline>'',
     tab @ ''if _, err := io.Copy(file, reader); err != nil {\<newline>'',
     tab @ tab @ ''return fmt.Errorf("failed to write file: %w", err)\<newline>'',
     tab @ ''}\<newline>'',
     ''\<newline>'',
     tab @ ''return nil\<newline>'',
     ''}\<newline>'',
     ''\<newline>'',
     ''func (s *LocalStorage) Download(ctx context.Context, key string) (io.ReadCloser, error) {\<newline>'',
     tab @ ''filePath := filepath.Join(s.basePath, key)\<newline>'',
     tab @ ''file, err := os.Open(filePath)\<newline>'',
     tab @ ''if err != nil {\<newline>'',
     tab @ tab @ ''return nil, fmt.Errorf("failed to open file: %w", err)\<newline>'',
     tab @ ''}\<newline>'',
     tab @ ''return file, nil\<newline>'',
     ''}\<newline>'',
     ''\<newline>'',
     ''func (s *LocalStorage) Delete(ctx context.Context, key string) error {\<newline>'',
     tab @ ''filePath := filepath.Join(s.basePath, key)\<newline>'',
     tab @ ''if err := os.Remove(filePath); err != nil {\<newline>'',
     tab @ tab @ ''return fmt.Errorf("failed to delete file: %w", err)\<newline>'',
     tab @ ''}\<newline>'',
     tab @ ''return nil\<newline>'',
     ''}\<newline>'',
     ''\<newline>'',
     ''func (s *LocalStorage) Exists(ctx context.Context, key string) (bool, error) {\<newline>'',
     tab @ ''filePath := filepath.Join(s.basePath, key)\<newline>'',
     tab @ ''_, err := os.Stat(filePath)\<newline>'',
     tab @ ''if err != nil {\<newline>'',
     tab @ tab @ ''if os.IsNotExist(err) {\<newline>'',
     tab @ tab @ tab @ ''return false, nil\<newline>'',
     tab @ tab @ ''}\<newline>'',
     tab @ tab @ ''return false, err\<newline>'',
     tab @ ''}\<newline>'',
     tab @ ''return true, nil\<newline>'',
     ''}\<newline>'',
     ''\<newline>'',
     ''func (s *LocalStorage) GetURL(ctx context.Context, key string) (string, error) {\<newline>'',
     tab @ ''return fmt.Sprintf("%s/%s", s.baseURL, key), nil\<newline>'',
     ''}\<newline>'']\<close>

definition get_storage_s3 :: string where
  \<open>get_storage_s3 = concat
    [''package storage\<newline>'',
     ''\<newline>'',
     ''import (\<newline>'',
     tab @ ''"context"\<newline>'',
     tab @ ''"fmt"\<newline>'',
     tab @ ''"io"\<newline>'',
     ''\<newline>'',
     tab @ ''"github.com/aws/aws-sdk-go-v2/aws"\<newline>'',
     tab @ ''"github.com/aws/aws-sdk-go-v2/config"\<newline>'',
     tab @ ''"github.com/aws/aws-sdk-go-v2/credentials"\<newline>'',
     tab @ ''"github.com/aws/aws-sdk-go-v2/service/s3"\<newline>'',
     '')\<newline>'',
     ''\<newline>'',
     ''type S3Storage struct {\<newline>'',
     tab @ ''client *s3.Client\<newline>'',
     tab @ ''bucket string\<newline>'',
     tab @ ''region string\<newline>'',
     ''}\<newline>'',
     ''\<newline>'',
     ''type S3Config struct {\<newline>'',
     tab @ ''Endpoint        string\<newline>'',
     tab @ ''Region          string\<newline>'',
     tab @ ''AccessKeyID     string\<newline>'',
     tab @ ''SecretAccessKey string\<newline>'',
     tab @ ''Bucket          string\<newline>'',
     tab @ ''UsePathStyle    bool\<newline>'',
     ''}\<newline>'',
     ''\<newline>'',
     ''func NewS3Storage(cfg S3Config) (*S3Storage, error) {\<newline>'',
     tab @ ''// Load AWS config\<newline>'',
     tab @ ''awsCfg, err := config.LoadDefaultConfig(context.TODO(),\<newline>'',
     tab @ tab @ ''config.WithRegion(cfg.Region),\<newline>'',
     tab @ tab @ ''config.WithCredentialsProvider(credentials.NewStaticCredentialsProvider(\<newline>'',
     tab @ tab @ tab @ ''cfg.AccessKeyID,\<newline>'',
     tab @ tab @ tab @ ''cfg.SecretAccessKey,\<newline>'',
     tab @ tab @ tab @ ''"",\<newline>'',
     tab @ tab @ '')),\<newline>'',
     tab @ '')\<newline>'',
     tab @ ''if err != nil {\<newline>'',
     tab @ tab @ ''return nil, fmt.Errorf("failed to load AWS config: %w", err)\<newline>'',
     tab @ ''}\<newline>'',
     ''\<newline>'',
     tab @ ''// Create S3 client\<newline>'',
     tab @ ''client := s3.NewFromConfig(awsCfg, func(o *s3.Options) {\<newline>'',
     tab @ tab @ ''if cfg.Endpoint != "" {\<newline>'',
     tab @ tab @ tab @ ''o.BaseEndpoint = aws.String(cfg.Endpoint)\<newline>'',
     tab @ tab @ ''}\<newline>'',
     tab @ tab @ ''o.UsePathStyle = cfg.UsePathStyle\<newline>'',
     tab @ ''})\<newline>'',
     ''\<newline>'',
     tab @ ''return &S3Storage{\<newline>'',
     tab @ tab @ ''client: client,\<newline>'',
     tab @ tab @ ''bucket: cfg.Bucket,\<newline>'',
     tab @ tab @ ''region: cfg.Region,\<newline>'',
     tab @ ''}, nil\<newline>'',
     ''}\<newline>'',
     ''\<newline>'',
     ''func (s *S3Storage) Upload(ctx context.Context, key string, reader io.Reader) error {\<newline>'',
     tab @ ''_, err := s.client.PutObject(ctx, &s3.PutObjectInput{\<newline>'',
     tab @ tab @ ''Bucket: aws.String(s.bucket),\<newline>'',
     tab @ tab @ ''Key:    aws.String(key),\<newline>'',
     tab @ tab @ ''Body:   reader,\<newline>'',
     tab @ ''})\<newline>'',
     tab @ ''if err != nil {\<newline>'',
     tab @ tab @ ''return fmt.Errorf("failed to upload to S3: %w", err)\<newline>'',
     tab @ ''}\<newline>'',
     tab @ ''return nil\<newline>'',
     ''}\<newline>'',
     ''\<newline>'',
     ''func (s *S3Storage) Download(ctx context.Context, key string) (io.ReadCloser, error) {\<newline>'',
     tab @ ''result, err := s.client.GetObject(ctx, &s3.GetObjectInput{\<newline>'',
     tab @ tab @ ''Bucket: aws.String(s.bucket),\<newline>'',
     tab @ tab @ ''Key:    aws.String(key),\<newline>'',
     tab @ ''})\<newline>'',
     tab @ ''if err != nil {\<newline>'',
     tab @ tab @ ''return nil, fmt.Errorf("failed to download from S3: %w", err)\<newline>'',
     tab @ ''}\<newline>'',
     tab @ ''return result.Body, nil\<newline>'',
     ''}\<newline>'',
     ''\<newline>'',
     ''func (s *S3Storage) Delete(ctx context.Context, key string) error {\<newline>'',
     tab @ ''_, err := s.client.DeleteObject(ctx, &s3.DeleteObjectInput{\<newline>'',
     tab @ tab @ ''Bucket: aws.String(s.bucket),\<newline>'',
     tab @ tab @ ''Key:    aws.String(key),\<newline>'',
     tab @ ''})\<newline>'',
     tab @ ''if err != nil {\<newline>'',
     tab @ tab @ ''return fmt.Errorf("failed to delete from S3: %w", err)\<newline>'',
     tab @ ''}\<newline>'',
     tab @ ''return nil\<newline>'',
     ''}\<newline>'',
     ''\<newline>'',
     ''func (s *S3Storage) Exists(ctx context.Context, key string) (bool, error) {\<newline>'',
     tab @ ''_, err := s.client.HeadObject(ctx, &s3.HeadObjectInput{\<newline>'',
     tab @ tab @ ''Bucket: aws.String(s.bucket),\<newline>'',
     tab @ tab @ ''Key:    aws.String(key),\<newline>'',
     tab @ ''})\<newline>'',
     tab @ ''if err != nil {\<newline>'',
     tab @ tab @ ''return false, nil\<newline>'',
     tab @ ''}\<newline>'',
     tab @ ''return true, nil\<newline>'',
     ''}\<newline>'',
     ''\<newline>'',
     ''func (s *S3Storage) GetURL(ctx context.Context, key string) (string, error) {\<newline>'',
     tab @ ''return fmt.Sprintf("https://%s.s3.%s.amazonaws.com/%s", s.bucket, s.region, key), nil\<newline>'',
     ''}\<newline>'']\<close>

definition get_storage_gcs :: string where
  \<open>get_storage_gcs = concat
    [''package storage\<newline>'',
     ''\<newline>'',
     ''import (\<newline>'',
     tab @ ''"context"\<newline>'',
     tab @ ''"fmt"\<newline>'',
     tab @ ''"io"\<newline>'',
     ''\<newline>'',
     tab @ ''"cloud.google.com/go/storage"\<newline>'',
     '')\<newline>'',
     ''\<newline>'',
     ''type GCSStorage struct {\<newline>'',
     tab @ ''client *storage.Client\<newline>'',
     tab @ ''bucket string\<newline>'',
     ''}\<newline>'',
     ''\<newline>'',
     ''func NewGCSStorage(ctx context.Context, bucketName string) (*GCSStorage, error) {\<newline>'',
     tab @ ''client, err := storage.NewClient(ctx)\<newline>'',
     tab @ ''if err != nil {\<newline>'',
     tab @ tab @ ''return nil, fmt.Errorf("failed to create GCS client: %w", err)\<newline>'',
     tab @ ''}\<newline>'',
     ''\<newline>'',
     tab @ ''return &GCSStorage{\<newline>'',
     tab @ tab @ ''client: client,\<newline>'',
     tab @ tab @ ''bucket: bucketName,\<newline>'',
     tab @ ''}, nil\<newline>'',
     ''}\<newline>'',
     ''\<newline>'',
     ''func (s *GCSStorage) Upload(ctx context.Context, key string, reader io.Reader) error {\<newline>'',
     tab @ ''wc := s.client.Bucket(s.bucket).Object(key).NewWriter(ctx)\<newline>'',
     tab @ ''if _, err := io.Copy(wc, reader); err != nil {\<newline>'',
     tab @ tab @ ''return fmt.Errorf("failed to upload to GCS: %w", err)\<newline>'',
     tab @ ''}\<newline>'',
     tab @ ''if err := wc.Close(); err != nil {\<newline>'',
     tab @ tab @ ''return fmt.Errorf("failed to close GCS writer: %w", err)\<newline>'',
     tab @ ''}\<newline>'',
     tab @ ''return nil\<newline>'',
     ''}\<newline>'',
     ''\<newline>'',
     ''func (s *GCSStorage) Download(ctx context.Context, key string) (io.ReadCloser, error) {\<newline>'',
     tab @ ''rc, err := s.client.Bucket(s.bucket).Object(key).NewReader(ctx)\<newline>'',
     tab @ ''if err != nil {\<newline>'',
     tab @ tab @ ''return nil, fmt.Errorf("failed to download from GCS: %w", err)\<newline>'',
     tab @ ''}\<newline>'',
     tab @ ''return rc, nil\<newline>'',
     ''}\<newline>'',
     ''\<newline>'',
     ''func (s *GCSStorage) Delete(ctx context.Context, key string) error {\<newline>'',
     tab @ ''if err := s.client.Bucket(s.bucket).Object(key).Delete(ctx); err != nil {\<newline>'',
     tab @ tab @ ''return fmt.Errorf("failed to delete from GCS: %w", err)\<newline>'',
     tab @ ''}\<newline>'',
     tab @ ''return nil\<newline>'',
     ''}\<newline>'',
     ''\<newline>'',
     ''func (s *GCSStorage) Exists(ctx context.Context, key string) (bool, error) {\<newline>'',
     tab @ ''_, err := s.client.Bucket(s.bucket).Object(key).Attrs(ctx)\<newline>'',
     tab @ ''if err != nil {\<newline>'',
     tab @ tab @ ''if err == storage.ErrObjectNotExist {\<newline>'',
     tab @ tab @ tab @ ''return false, nil\<newline>'',
     tab @ tab @ ''}\<newline>'',
     tab @ tab @ ''return false, err\<newline>'',
     tab @ ''}\<newline>'',
     tab @ ''return true, nil\<newline>'',
     ''}\<newline>'',
     ''\<newline>'',
     ''func (s *GCSStorage) GetURL(ctx context.Context, key string) (string, error) {\<newline>'',
     tab @ ''return fmt.Sprintf("https://storage.googleapis.com/%s/%s", s.bucket, key), nil\<newline>'',
     ''}\<newline>'']\<close>

definition get_cache_interface :: string where
  \<open>get_cache_interface = concat
    [''package cache\<newline>'',
     ''\<newline>'',
     ''import (\<newline>'',
     tab @ ''"context"\<newline>'',
     tab @ ''"time"\<newline>'',
     '')\<newline>'',
     ''\<newline>'',
     ''// Cache defines the interface for caching operations\<newline>'',
     ''type Cache interface {\<newline>'',
     tab @ ''// Get retrieves a value from cache\<newline>'',
     tab @ ''Get(ctx context.Context, key string) (string, error)\<newline>'',
     ''\<newline>'',
     tab @ ''// Set stores a value in cache with expiration\<newline>'',
     tab @ ''Set(ctx context.Context, key string, value string, expiration time.Duration) error\<newline>'',
     ''\<newline>'',
     tab @ ''// Delete removes a value from cache\<newline>'',
     tab @ ''Delete(ctx context.Context, key string) error\<newline>'',
     ''\<newline>'',
     tab @ ''// Exists checks if a key exists in cache\<newline>'',
     tab @ ''Exists(ctx context.Context, key string) (bool, error)\<newline>'',
     ''\<newline>'',
     tab @ ''// Clear clears all cache entries\<newline>'',
     tab @ ''Clear(ctx context.Context) error\<newline>'',
     ''}\<newline>'']\<close>

definition get_cache_redis :: string where
  \<open>get_cache_redis = concat
    [''package cache\<newline>'',
     ''\<newline>'',
     ''import (\<newline>'',
     tab @ ''"context"\<newline>'',
     tab @ ''"fmt"\<newline>'',
     tab @ ''"time"\<newline>'',
     ''\<newline>'',
     tab @ ''"github.com/redis/go-redis/v9"\<newline>'',
     '')\<newline>'',
     ''\<newline>'',
     ''type RedisCache struct {\<newline>'',
     tab @ ''client *redis.Client\<newline>'',
     ''}\<newline>'',
     ''\<newline>'',
     ''type RedisConfig struct {\<newline>'',
     tab @ ''Host     string\<newline>'',
     tab @ ''Port     string\<newline>'',
     tab @ ''Password string\<newline>'',
     tab @ ''DB       int\<newline>'',
     ''}\<newline>'',
     ''\<newline>'',
     ''func NewRedisCache(cfg RedisConfig) *RedisCache {\<newline>'',
     tab @ ''client := redis.NewClient(&redis.Options{\<newline>'',
     tab @ tab @ ''Addr:     fmt.Sprintf("%s:%s", cfg.Host, cfg.Port),\<newline>'',
     tab @ tab @ ''Password: cfg.Password,\<newline>'',
     tab @ tab @ ''DB:       cfg.DB,\<newline>'',
     tab @ ''})\<newline>'',
     ''\<newline>'',
     tab @ ''return &RedisCache{\<newline>'',
     tab @ tab @ ''client: client,\<newline>'',
     tab @ ''}\<newline>'',
     ''}\<newline>'',
     ''\<newline>'',
     ''func (c *RedisCache) Get(ctx context.Context, key string) (string, error) {\<newline>'',
     tab @ ''val, err := c.client.Get(ctx, key).Result()\<newline>'',
     tab @ ''if err == redis.Nil {\<newline>'',
     tab @ tab @ ''return "", fmt.Errorf("key not found")\<newline>'',
     tab @ ''}\<newline>'',
     tab @ ''if err != nil {\<newline>'',
     tab @ tab @ ''return "", fmt.Errorf("failed to get from cache: %w", err)\<newline>'',
     tab @ ''}\<newline>'',
     tab @ ''return val, nil\<newline>'',
     ''}\<newline>'',
     ''\<newline>'',
     ''func (c *RedisCache) Set(ctx context.Context, key string, value string, expiration time.Duration) error {\<newline>'',
     tab @ ''if err := c.client.Set(ctx, key, value, expiration).Err(); err != nil {\<newline>'',
     tab @ tab @ ''return fmt.Errorf("failed to set cache: %w", err)\<newline>'',
     tab @ ''}\<newline>'',
     tab @ ''return nil\<newline>'',
     ''}\<newline>'',
     ''\<newline>'',
     ''func (c *RedisCache) Delete(ctx context.Context, key string) error {\<newline>'',
     tab @ ''if err := c.client.Del(ctx, key).Err(); err != nil {\<newline>'',
     tab @ tab @ ''return fmt.Errorf("failed to delete from cache: %w", err)\<newline>'',
     tab @ ''}\<newline>'',
     tab @ ''return nil\<newline>'',
     ''}\<newline>'',
     ''\<newline>'',
     ''func (c *RedisCache) Exists(ctx context.Context, key string) (bool, error) {\<newline>'',
     tab @ ''val, err := c.client.Exists(ctx, key).Result()\<newline>'',
     tab @ ''if err != nil {\<newline>'',
     tab @ tab @ ''return false, fmt.Errorf("failed to check existence: %w", err)\<newline>'',
     tab @ ''}\<newline>'',
     tab @ ''return val > 0, nil\<newline>'',
     ''}\<newline>'',
     ''\<newline>'',
     ''func (c *RedisCache) Clear(ctx context.Context) error {\<newline>'',
     tab @ ''if err := c.client.FlushDB(ctx).Err(); err != nil {\<newline>'',
     tab @ tab @ ''return fmt.Errorf("failed to clear cache: %w", err)\<newline>'',
     tab @ ''}\<newline>'',
     tab @ ''return nil\<newline>'',
     ''}\<newline>'']\<close>

definition get_cache_memory :: string where
  \<open>get_cache_memory = concat
    [''package cache\<newline>'',
     ''\<newline>'',
     ''import (\<newline>'',
     tab @ ''"context"\<newline>'',
     tab @ ''"fmt"\<newline>'',
     tab @ ''"sync"\<newline>'',
     tab @ ''"time"\<newline>'',
     '')\<newline>'',
     ''\<newline>'',
     ''type cacheItem struct {\<newline>'',
     tab @ ''value      string\<newline>'',
     tab @ ''expiration time.Time\<newline>'',
     ''}\<newline>'',
     ''\<newline>'',
     ''type MemoryCache struct {\<newline>'',
     tab @ ''items map[string]cacheItem\<newline>'',
     tab @ ''mu    sync.RWMutex\<newline>'',
     ''}\<newline>'',
     ''\<newline>'',
     ''func NewMemoryCache() *MemoryCache {\<newline>'',
     tab @ ''cache := &MemoryCache{\<newline>'',
     tab @ tab @ ''items: make(map[string]cacheItem),\<newline>'',
     tab @ ''}\<newline>'',
     ''\<newline>'',
     tab @ ''// Start cleanup goroutine\<newline>'',
     tab @ ''go cache.cleanup()\<newline>'',
     ''\<newline>'',
     tab @ ''return cache\<newline>'',
     ''}\<newline>'',
     ''\<newline>'',
     ''func (c *MemoryCache) Get(ctx context.Context, key string) (string, error) {\<newline>'',
     tab @ ''c.mu.RLock()\<newline>'',
     tab @ ''defer c.mu.RUnlock()\<newline>'',
     ''\<newline>'',
     tab @ ''item, exists := c.items[key]\<newline>'',
     tab @ ''if !exists {\<newline>'',
     tab @ tab @ ''return "", fmt.Errorf("key not found")\<newline>'',
     tab @ ''}\<newline>'',
     ''\<newline>'',
     tab @ ''if time.Now().After(item.expiration) {\<newline>'',
     tab @ tab @ ''return "", fmt.Errorf("key expired")\<newline>'',
     tab @ ''}\<newline>'',
     ''\<newline>'',
     tab @ ''return item.value, nil\<newline>'',
     ''}\<newline>'',
     ''\<newline>'',
     ''func (c *MemoryCache) Set(ctx context.Context, key string, value string, expiration time.Duration) error {\<newline>'',
     tab @ ''c.mu.Lock()\<newline>'',
     tab @ ''defer c.mu.Unlock()\<newline>'',
     ''\<newline>'',
     tab @ ''c.items[key] = cacheItem{\<newline>'',
     tab @ tab @ ''value:      value,\<newline>'',
     tab @ tab @ ''expiration: time.Now().Add(expiration),\<newline>'',
     tab @ ''}\<newline>'',
     ''\<newline>'',
     tab @ ''return nil\<newline>'',
     ''}\<newline>'',
     ''\<newline>'',
     ''func (c *MemoryCache) Delete(ctx context.Context, key string) error {\<newline>'',
     tab @ ''c.mu.Lock()\<newline>'',
     tab @ ''defer c.mu.Unlock()\<newline>'',
     ''\<newline>'',
     tab @ ''delete(c.items, key)\<newline>'',
     tab @ ''return nil\<newline>'',
     ''}\<newline>'',
     ''\<newline>'',
     ''func (c *MemoryCache) Exists(ctx context.Context, key string) (bool, error) {\<newline>'',
     tab @ ''c.mu.RLock()\<newline>'',
     tab @ ''defer c.mu.RUnlock()\<newline>'',
     ''\<newline>'',
     tab @ ''item, exists := c.items[key]\<newline>'',
     tab @ ''if !exists {\<newline>'',
     tab @ tab @ ''return false, nil\<newline>'',
     tab @ ''}\<newline>'',
     ''\<newline>'',
     tab @ ''if time.Now().After(item.expiration) {\<newline>'',
     tab @ tab @ ''return false, nil\<newline>'',
     tab @ ''}\<newline>'',
     ''\<newline>'',
     tab @ ''return true, nil\<newline>'',
     ''}\<newline>'',
     ''\<newline>'',
     ''func (c *MemoryCache) Clear(ctx context.Context) error {\<newline>'',
     tab @ ''c.mu.Lock()\<newline>'',
     tab @ ''defer c.mu.Unlock()\<newline>'',
     ''\<newline>'',
     tab @ ''c.items = make(map[string]cacheItem)\<newline>'',
     tab @ ''return nil\<newline>'',
     ''}\<newline>'',
     ''\<newline>'',
     ''func (c *MemoryCache) cleanup() {\<newline>'',
     tab @ ''ticker := time.NewTicker(1 * time.Minute)\<newline>'',
     tab @ ''defer ticker.Stop()\<newline>'',
     ''\<newline>'',
     tab @ ''for range ticker.C {\<newline>'',
     tab @ tab @ ''c.mu.Lock()\<newline>'',
     tab @ tab @ ''now := time.Now()\<newline>'',
     tab @ tab @ ''for key, item := range c.items {\<newline>'',
     tab @ tab @ tab @ ''if now.After(item.expiration) {\<newline>'',
     tab @ tab @ tab @ tab @ ''delete(c.items, key)\<newline>'',
     tab @ tab @ tab @ ''}\<newline>'',
     tab @ tab @ ''}\<newline>'',
     tab @ tab @ ''c.mu.Unlock()\<newline>'',
     tab @ ''}\<newline>'',
     ''}\<newline>'']\<close>

subsection \<open>Dependencies and usage examples\<close>

definition deps_items :: "((string \<times> string) \<times> string list) list" where
  "deps_items =
    [((''storage'', ''s3''),
        [''github.com/aws/aws-sdk-go-v2/aws'',
         ''github.com/aws/aws-sdk-go-v2/config'',
         ''github.com/aws/aws-sdk-go-v2/credentials'',
         ''github.com/aws/aws-sdk-go-v2/service/s3'']),
     ((''storage'', ''gcs''), [''cloud.google.com/go/storage'']),
     ((''cache'', ''redis''), [''github.com/redis/go-redis/v9'']),
     ((''queue'', ''redis''), [''github.com/redis/go-redis/v9'']),
     ((''queue'', ''kafka''), [''github.com/segmentio/kafka-go'']),
     ((''queue'', ''rabbitmq''), [''github.com/rabbitmq/amqp091-go'']),
     ((''email'', ''sendgrid''), [''github.com/sendgrid/sendgrid-go''])]"

definition get_dependencies :: "string \<Rightarrow> string \<Rightarrow> string list" where
  "get_dependencies infra_type provider = dict_get (map_of deps_items) (infra_type, provider) []"

definition usage_storage_local :: string where
  \<open>usage_storage_local = concat
    [''\<newline>'',
     ''// In your main.go or initialization code:\<newline>'',
     ''storage := storage.NewLocalStorage("./uploads", "http://localhost:8080/uploads")\<newline>'',
     ''\<newline>'',
     ''// Upload file\<newline>'',
     ''err := storage.Upload(ctx, "files/image.jpg", fileReader)\<newline>'',
     ''\<newline>'',
     ''// Download file\<newline>'',
     ''reader, err := storage.Download(ctx, "files/image.jpg")\<newline>'',
     ''\<newline>'',
     ''// Get URL\<newline>'',
     ''url, err := storage.GetURL(ctx, "files/image.jpg")\<newline>'']\<close>

definition usage_storage_s3 :: string where
  \<open>usage_storage_s3 = concat
    [''\<newline>'',
     ''// In your main.go or initialization code:\<newline>'',
     ''storage, err := storage.NewS3Storage(storage.S3Config{\<newline>'',
     ''    Endpoint:        os.Getenv("S3_ENDPOINT"),\<newline>'',
     ''    Region:          os.Getenv("S3_REGION"),\<newline>'',
     ''    AccessKeyID:     os.Getenv("S3_ACCESS_KEY"),\<newline>'',
     ''    SecretAccessKey: os.Getenv("S3_SECRET_KEY"),\<newline>'',
     ''    Bucket:          os.Getenv("S3_BUCKET"),\<newline>'',
     ''    UsePathStyle:    true,\<newline>'',
     ''})\<newline>'',
     ''\<newline>'',
     ''// Upload file\<newline>'',
     ''err = storage.Upload(ctx, "files/image.jpg", fileReader)\<newline>'']\<close>

definition usage_storage_gcs :: string where
  \<open>usage_storage_gcs = concat
    [''\<newline>'',
     ''// In your main.go or initialization code:\<newline>'',
     ''storage, err := storage.NewGCSStorage(ctx, os.Getenv("GCS_BUCKET"))\<newline>'',
     ''\<newline>'',
     ''// Upload file\<newline>'',
     ''err = storage.Upload(ctx, "files/image.jpg", fileReader)\<newline>'']\<close>

definition usage_cache_redis :: string where
  \<open>usage_cache_redis = concat
    [''\<newline>'',
     ''// In your main.go or initialization code:\<newline>'',
     ''cache := cache.NewRedisCache(cache.RedisConfig{\<newline>'',
     ''    Host:     os.Getenv("REDIS_HOST"),\<newline>'',
     ''    Port:     os.Getenv("REDIS_PORT"),\<newline>'',
     ''    Password: os.Getenv("REDIS_PASSWORD"),\<newline>'',
     ''    DB:       0,\<newline>'',
     ''})\<newline>'',
     ''\<newline>'',
     ''// Set value\<newline>'',
     ''err := cache.Set(ctx, "key", "value", 5*time.Minute)\<newline>'',
     ''\<newline>'',
     ''// Get value\<newline>'',
     ''val, err := cache.Get(ctx, "key")\<newline>'']\<close>

definition usage_cache_memory :: string where
  \<open>usage_cache_memory = concat
    [''\<newline>'',
     ''// In your main.go or initialization code:\<newline>'',
     ''cache := cache.NewMemoryCache()\<newline>'',
     ''\<newline>'',
     ''// Set value\<newline>'',
     ''err := cache.Set(ctx, "key", "value", 5*time.Minute)\<newline>'',
     ''\<newline>'',
     ''// Get value\<newline>'',
     ''val, err := cache.Get(ctx, "key")\<newline>'']\<close>

definition print_usage_example :: "string \<Rightarrow> string \<Rightarrow> unit io" where
  "print_usage_example infra_type provider =
    (if infra_type = ''storage'' then
       (if provider = ''local'' then print usage_storage_local
        else if provider = ''s3'' then print usage_storage_s3
        else if provider = ''gcs'' then print usage_storage_gcs
        else io_return ())
     else if infra_type = ''cache'' then
       (if provider = ''redis'' then print usage_cache_redis
        else if provider = ''memory'' then print usage_cache_memory
        else io_return ())
     else io_return ())"

subsection \<open>\<open>create_infrastructure\<close>\<close>

text \<open>
  The two local variables \<open>interface_content\<close> and \<open>impl_content\<close> start as \<open>None\<close>
  and are set by the chain of tests on the type and the provider; \<open>select_content\<close>
  is that chain. A value is false in a condition when it is \<open>None\<close> or the empty
  string.
\<close>

definition select_content :: "string \<Rightarrow> string \<Rightarrow> string option \<times> string option" where
  "select_content infra_type provider =
    (if infra_type = ''storage'' then
       (Some get_storage_interface,
        if provider = ''local'' then Some get_storage_local
        else if provider = ''s3'' then Some get_storage_s3
        else if provider = ''gcs'' then Some get_storage_gcs
        else None)
     else if infra_type = ''cache'' then
       (Some get_cache_interface,
        if provider = ''redis'' then Some get_cache_redis
        else if provider = ''memory'' then Some get_cache_memory
        else None)
     else (None, None))"

definition truthy :: "string option \<Rightarrow> bool" where
  "truthy c = (case c of None \<Rightarrow> False | Some s \<Rightarrow> s \<noteq> [])"

definition content_of :: "string option \<Rightarrow> string" where
  "content_of c = (case c of None \<Rightarrow> [] | Some s \<Rightarrow> s)"

definition create_infrastructure :: "Path \<Rightarrow> string \<Rightarrow> string \<Rightarrow> unit io" where
  \<open>create_infrastructure project_path infra_type provider =
    (let infra_dir =
           path_div (path_div (path_div project_path ''internal'') ''infrastructure'') infra_type;
         (interface_content, impl_content) = select_content infra_type provider
     in io_seq
      [print (''\<newline>'' @ cp_rocket @ '' Adding '' @ infra_type @ '' infrastructure with '' @ provider @ '' provider\<newline>''),
       fs_update (\<lambda>fs. Path_mkdir True True fs infra_dir),
       if \<not> truthy interface_content \<or> \<not> truthy impl_content then
         print (cp_cross @ '' Unsupported combination: '' @ infra_type @ ''/'' @ provider)
       else
         (let interface_file = path_div infra_dir (infra_type @ ''.go'');
              impl_file = path_div infra_dir (provider @ ''.go'');
              deps = get_dependencies infra_type provider
          in io_seq
           [fs_update (\<lambda>fs. write_text fs interface_file (content_of interface_content)),
            print (cp_check @ '' Created '' @ infra_type @ ''/'' @ infra_type @ ''.go (interface)''),
            fs_update (\<lambda>fs. write_text fs impl_file (content_of impl_content)),
            print (cp_check @ '' Created '' @ infra_type @ ''/'' @ provider @ ''.go (implementation)''),
            if deps \<noteq> [] then
              io_seq
               [print (''\<newline>'' @ cp_package @ '' Required dependencies:''),
                io_seq (map (\<lambda>dep. print (''   - '' @ dep)) deps),
                print (''\<newline>Run: go get '' @ join '' '' deps)]
            else io_return (),
            print (''\<newline>'' @ cp_done @ '' '' @ str_capitalize infra_type @ '' infrastructure added successfully!''),
            print (''\<newline>Usage example:''),
            print_usage_example infra_type provider])])\<close>

subsection \<open>\<open>main\<close> of add_infrastructure.py\<close>

text \<open>The command line: \<open>--type\<close>, \<open>--provider\<close> (both required) and \<open>--project-path\<close>.\<close>

datatype infra_argv =
  Infra_argv (iargv_type: "string option") (iargv_provider: "string option")
    (iargv_project_path: "string option")

definition add_infrastructure_main :: "infra_argv \<Rightarrow> unit io" where
  \<open>add_infrastructure_main argv =
    (case iargv_type argv of
       None \<Rightarrow> sys_exit 2
     | Some infra_type \<Rightarrow>
    if infra_type \<notin> set (map fst SUPPORTED_TYPES) then sys_exit 2 else
    (case iargv_provider argv of
       None \<Rightarrow> sys_exit 2
     | Some provider \<Rightarrow>
    (case map_of SUPPORTED_TYPES infra_type of
       None \<Rightarrow> io_raise KeyError
     | Some providers \<Rightarrow>
    (let project_path_arg = arg_default (iargv_project_path argv) ''.'' in
     if provider \<notin> set providers then
       io_seq
        [print (cp_cross @ '' Error: Unsupported provider '' @ sq @ provider @ ''\' for type '' @ sq @ infra_type @ sq),
         print (''Supported providers: '' @ join '', '' providers),
         sys_exit 1]
     else
     (let project_path = Path_of project_path_arg in
      io_bind (fs_test (\<lambda>fs. path_exists fs project_path)) (\<lambda>project_exists.
      if \<not> project_exists then
        io_seq
         [print (cp_cross @ '' Error: Project path '' @ sq @ project_path_arg @ ''\' does not exist''),
          sys_exit 1]
      else
      io_bind (fs_test (\<lambda>fs. path_exists fs (path_div project_path ''go.mod''))) (\<lambda>go_mod_exists.
      if \<not> go_mod_exists then
        io_seq
         [print (cp_cross @ '' Error: Not a Go project (go.mod not found)''),
          sys_exit 1]
      else create_infrastructure project_path infra_type provider)))))))\<close>

section \<open>The component generators\<close>

text \<open>
  \<open>react-developer/scripts/generate_component.py\<close> and
  \<open>monorepo-developer/scripts/generate_component.py\<close> define functions of the same
  names; those of the first are prefixed \<open>react_\<close> here and those of the second
  \<open>monorepo_\<close>. \<open>to_pascal_case\<close> is the same function in both.
\<close>

definition to_pascal_case :: "string \<Rightarrow> string" where
  "to_pascal_case name =
    concat (map str_capitalize
      (split_ws (replace_char CHR ''_'' CHR '' '' (replace_char CHR ''-'' CHR '' '' name))))"

subsection \<open>The templates of the React script\<close>

definition react_generate_basic_component :: "string \<Rightarrow> string" where
  \<open>react_generate_basic_component name =
    (let pascal_name = to_pascal_case name
     in concat
       [''interface '' @ pascal_name @ ''Props {\<newline>'',
        ''  // Add your props here\<newline>'',
        ''}\<newline>'',
        ''\<newline>'',
        ''export function '' @ pascal_name @ ''({  }: '' @ pascal_name @ ''Props) {\<newline>'',
        ''  return (\<newline>'',
        ''    <div>\<newline>'',
        ''      <h2>'' @ pascal_name @ ''</h2>\<newline>'',
        ''    </div>\<newline>'',
        ''  )\<newline>'',
        ''}\<newline>''])\<close>

definition react_generate_component_with_children :: "string \<Rightarrow> string" where
  \<open>react_generate_component_with_children name =
    (let pascal_name = to_pascal_case name
     in concat
       [''import { ReactNode } from "react"\<newline>'',
        ''\<newline>'',
        ''interface '' @ pascal_name @ ''Props {\<newline>'',
        ''  children: ReactNode\<newline>'',
        ''  className?: string\<newline>'',
        ''}\<newline>'',
        ''\<newline>'',
        ''export function '' @ pascal_name @ ''({ children, className }: '' @ pascal_name @ ''Props) {\<newline>'',
        ''  return (\<newline>'',
        ''    <div className={className}>\<newline>'',
        ''      {children}\<newline>'',
        ''    </div>\<newline>'',
        ''  )\<newline>'',
        ''}\<newline>''])\<close>

definition react_generate_component_with_state :: "string \<Rightarrow> string" where
  \<open>react_generate_component_with_state name =
    (let pascal_name = to_pascal_case name
     in concat
       [''import { useState } from "react"\<newline>'',
        ''\<newline>'',
        ''interface '' @ pascal_name @ ''Props {\<newline>'',
        ''  initialValue?: number\<newline>'',
        ''}\<newline>'',
        ''\<newline>'',
        ''export function '' @ pascal_name @ ''({ initialValue = 0 }: '' @ pascal_name @ ''Props) {\<newline>'',
        ''  const [count, setCount] = useState(initialValue)\<newline>'',
        ''\<newline>'',
        ''  return (\<newline>'',
        ''    <div className="space-y-4">\<newline>'',
        ''      <h2 className="text-2xl font-bold">'' @ pascal_name @ ''</h2>\<newline>'',
        ''      <p>Count: {count}</p>\<newline>'',
        ''      <div className="space-x-2">\<newline>'',
        ''        <button\<newline>'',
        ''          onClick={() => setCount(count + 1)}\<newline>'',
        ''          className="px-4 py-2 bg-blue-500 text-white rounded hover:bg-blue-600"\<newline>'',
        ''        >\<newline>'',
        ''          Increment\<newline>'',
        ''        </button>\<newline>'',
        ''        <button\<newline>'',
        ''          onClick={() => setCount(count - 1)}\<newline>'',
        ''          className="px-4 py-2 bg-red-500 text-white rounded hover:bg-red-600"\<newline>'',
        ''        >\<newline>'',
        ''          Decrement\<newline>'',
        ''        </button>\<newline>'',
        ''      </div>\<newline>'',
        ''    </div>\<newline>'',
        ''  )\<newline>'',
        ''}\<newline>''])\<close>

definition react_generate_form_component :: "string \<Rightarrow> string" where
  \<open>react_generate_form_component name =
    (let pascal_name = to_pascal_case name
     in concat
       [''import { useState } from "react"\<newline>'',
        ''import { Button } from "@/components/ui/button"\<newline>'',
        ''import { Input } from "@/components/ui/input"\<newline>'',
        ''import { Label } from "@/components/ui/label"\<newline>'',
        ''\<newline>'',
        ''interface '' @ pascal_name @ ''Props {\<newline>'',
        ''  onSubmit: (data: FormData) => void | Promise<void>\<newline>'',
        ''}\<newline>'',
        ''\<newline>'',
        ''interface FormData {\<newline>'',
        ''  // Define your form fields here\<newline>'',
        ''  name: string\<newline>'',
        ''  email: string\<newline>'',
        ''}\<newline>'',
        ''\<newline>'',
        ''export function '' @ pascal_name @ ''({ onSubmit }: '' @ pascal_name @ ''Props) {\<newline>'',
        ''  const [isLoading, setIsLoading] = useState(false)\<newline>'',
        ''  const [formData, setFormData] = useState<FormData>({\<newline>'',
        ''    name: "",\<newline>'',
        ''    email: "",\<newline>'',
        ''  })\<newline>'',
        ''\<newline>'',
        ''  const handleSubmit = async (e: React.FormEvent) => {\<newline>'',
        ''    e.preventDefault()\<newline>'',
        ''    setIsLoading(true)\<newline>'',
        ''    \<newline>'',
        ''    try {\<newline>'',
        ''      await onSubmit(formData)\<newline>'',
        ''    } finally {\<newline>'',
        ''      setIsLoading(false)\<newline>'',
        ''    }\<newline>'',
        ''  }\<newline>'',
        ''\<newline>'',
        ''  const handleChange = (e: React.ChangeEvent<HTMLInputElement>) => {\<newline>'',
        ''    setFormData(prev => ({\<newline>'',
        ''      ...prev,\<newline>'',
        ''      [e.target.name]: e.target.value\<newline>'',
        ''    }))\<newline>'',
        ''  }\<newline>'',
        ''\<newline>'',
        ''  return (\<newline>'',
        ''    <form onSubmit={handleSubmit} className="space-y-4">\<newline>'',
        ''      <div className="space-y-2">\<newline>'',
        ''        <Label htmlFor="name">Name</Label>\<newline>'',
        ''        <Input\<newline>'',
        ''          id="name"\<newline>'',
        ''          name="name"\<newline>'',
        ''          value={formData.name}\<newline>'',
        ''          onChange={handleChange}\<newline>'',
        ''          required\<newline>'',
        ''        />\<newline>'',
        ''      </div>\<newline>'',
        ''\<newline>'',
        ''      <div className="space-y-2">\<newline>'',
        ''        <Label htmlFor="email">Email</Label>\<newline>'',
        ''        <Input\<newline>'',
        ''          id="email"\<newline>'',
        ''          name="email"\<newline>'',
        ''          type="email"\<newline>'',
        ''          value={formData.email}\<newline>'',
        ''          onChange={handleChange}\<newline>'',
        ''          required\<newline>'',
        ''        />\<newline>'',
        ''      </div>\<newline>'',
        ''\<newline>'',
        ''      <Button type="submit" disabled={isLoading}>\<newline>'',
        ''        {isLoading ? "Submitting..." : "Submit"}\<newline>'',
        ''      </Button>\<newline>'',
        ''    </form>\<newline>'',
        ''  )\<newline>'',
        ''}\<newline>''])\<close>

definition react_generate_card_component :: "string \<Rightarrow> string" where
  \<open>react_generate_card_component name =
    (let pascal_name = to_pascal_case name
     in concat
       [''import { Card, CardContent, CardDescription, CardHeader, CardTitle } from "@/components/ui/card"\<newline>'',
        ''\<newline>'',
        ''interface '' @ pascal_name @ ''Props {\<newline>'',
        ''  title: string\<newline>'',
        ''  description?: string\<newline>'',
        ''  children?: React.ReactNode\<newline>'',
        ''}\<newline>'',
        ''\<newline>'',
        ''export function '' @ pascal_name @ ''({ title, description, children }: '' @ pascal_name @ ''Props) {\<newline>'',
        ''  return (\<newline>'',
        ''    <Card>\<newline>'',
        ''      <CardHeader>\<newline>'',
        ''        <CardTitle>{title}</CardTitle>\<newline>'',
        ''        {description && <CardDescription>{description}</CardDescription>}\<newline>'',
        ''      </CardHeader>\<newline>'',
        ''      <CardContent>\<newline>'',
        ''        {children}\<newline>'',
        ''      </CardContent>\<newline>'',
        ''    </Card>\<newline>'',
        ''  )\<newline>'',
        ''}\<newline>''])\<close>

definition react_generate_list_component :: "string \<Rightarrow> string" where
  \<open>react_generate_list_component name =
    (let pascal_name = to_pascal_case name
     in concat
       [''interface '' @ pascal_name @ ''Item {\<newline>'',
        ''  id: string | number\<newline>'',
        ''  // Add more fields as needed\<newline>'',
        ''}\<newline>'',
        ''\<newline>'',
        ''interface '' @ pascal_name @ ''Props {\<newline>'',
        ''  items: '' @ pascal_name @ ''Item[]\<newline>'',
        ''  renderItem: (item: '' @ pascal_name @ ''Item) => React.ReactNode\<newline>'',
        ''  emptyMessage?: string\<newline>'',
        ''}\<newline>'',
        ''\<newline>'',
        ''export function '' @ pascal_name @ ''({ items, renderItem, emptyMessage = "No items found" }: '' @ pascal_name @ ''Props) {\<newline>'',
        ''  if (items.length === 0) {\<newline>'',
        ''    return (\<newline>'',
        ''      <div className="text-center py-8 text-muted-foreground">\<newline>'',
        ''        {emptyMessage}\<newline>'',
        ''      </div>\<newline>'',
        ''    )\<newline>'',
        ''  }\<newline>'',
        ''\<newline>'',
        ''  return (\<newline>'',
        ''    <div className="space-y-4">\<newline>'',
        ''      {items.map(item => (\<newline>'',
        ''        <div key={item.id}>\<newline>'',
        ''          {renderItem(item)}\<newline>'',
        ''        </div>\<newline>'',
        ''      ))}\<newline>'',
        ''    </div>\<newline>'',
        ''  )\<newline>'',
        ''}\<newline>''])\<close>

subsection \<open>\<open>create_component\<close> and \<open>main\<close> of the React script\<close>

definition react_generators :: "(string \<times> (string \<Rightarrow> string)) list" where
  "react_generators =
    [(''basic'', react_generate_basic_component),
     (''children'', react_generate_component_with_children),
     (''state'', react_generate_component_with_state),
     (''form'', react_generate_form_component),
     (''card'', react_generate_card_component),
     (''list'', react_generate_list_component)]"

definition react_create_component :: "Path \<Rightarrow> string \<Rightarrow> string \<Rightarrow> string \<Rightarrow> bool io" where
  \<open>react_create_component project_path name component_type directory =
    (let generator = dict_get (map_of react_generators) component_type react_generate_basic_component;
         content = generator name;
         components_dir = path_div (path_div project_path ''src'') directory;
         pascal_name = to_pascal_case name;
         component_file = path_div components_dir (pascal_name @ ''.tsx'');
         index_file = path_div components_dir ''index.ts'';
         export_line = ''export * from \'./'' @ pascal_name @ sq @ ''\<newline>''
     in
     io_then (print (''\<newline>'' @ u_rocket @ '' Generating '' @ name @ '' component\<newline>''))
    (io_then (fs_update (\<lambda>fs. Path_mkdir True True fs components_dir))
    (io_bind (fs_test (\<lambda>fs. path_exists fs component_file)) (\<lambda>component_exists.
     io_bind
       (if component_exists then
          io_then (print (u_warning @ '' Warning: '' @ path_str component_file @ '' already exists''))
         (io_bind (input ''Overwrite? (y/N): '') (\<lambda>response.
          if lower response \<noteq> ''y'' then io_then (print ''Cancelled'') (io_return True)
          else io_return False))
        else io_return False) (\<lambda>cancelled.
     if cancelled then io_return False
     else
     io_then (fs_update (\<lambda>fs. write_text fs component_file content))
    (io_bind (io_raise_or_return (relative_to component_file project_path)) (\<lambda>rel.
     io_then (print (u_check @ '' Created '' @ path_str rel))
    (io_bind (fs_test (\<lambda>fs. path_exists fs index_file)) (\<lambda>index_exists.
     io_then
       (if index_exists then
          io_bind (fs_read (\<lambda>fs. read_text fs index_file)) (\<lambda>content.
          if \<not> str_in export_line content then
            io_then (fs_update (\<lambda>fs. write_text fs index_file (content @ export_line)))
           (io_bind (io_raise_or_return (relative_to index_file project_path)) (\<lambda>rel.
            print (u_check @ '' Updated '' @ path_str rel)))
          else io_return ())
        else
          io_then (fs_update (\<lambda>fs. write_text fs index_file export_line))
         (io_bind (io_raise_or_return (relative_to index_file project_path)) (\<lambda>rel.
          print (u_check @ '' Created '' @ path_str rel))))
    (io_then (io_seq
       [print (''\<newline>'' @ u_memo @ '' Usage:''),
        print (''  import { '' @ pascal_name @ '' } from \'@/'' @ directory @ sq),
        print (''  // or''),
        print (''  import { '' @ pascal_name @ '' } from \'@/'' @ directory @ ''/'' @ pascal_name @ sq)])
     (io_return True)))))))))))\<close>

text \<open>The command line: \<open>name\<close> (required), \<open>--project-path\<close>, \<open>--type\<close> and \<open>--dir\<close>.\<close>

datatype react_argv =
  React_argv (rargv_name: "string option") (rargv_project_path: "string option")
    (rargv_type: "string option") (rargv_dir: "string option")

definition react_type_choices :: "string list" where
  "react_type_choices = [''basic'', ''children'', ''state'', ''form'', ''card'', ''list'']"

definition react_main :: "react_argv \<Rightarrow> unit io" where
  \<open>react_main argv =
    (case rargv_name argv of
       None \<Rightarrow> sys_exit 2
     | Some name \<Rightarrow>
    (let component_type = arg_default (rargv_type argv) ''basic'';
         project_path_arg = arg_default (rargv_project_path argv) ''.'';
         directory = arg_default (rargv_dir argv) ''components''
     in
     if component_type \<notin> set react_type_choices then sys_exit 2 else
     (let project_path = Path_of project_path_arg in
      io_bind (fs_test (\<lambda>fs. path_exists fs project_path)) (\<lambda>project_exists.
      if \<not> project_exists then
        io_seq
         [print (u_cross @ '' Error: Project path '' @ sq @ project_path_arg @ ''\' does not exist''),
          sys_exit 1]
      else
      io_bind (fs_test (\<lambda>fs. path_exists fs (path_div project_path ''package.json''))) (\<lambda>package_json_exists.
      if \<not> package_json_exists then
        io_seq
         [print (u_cross @ '' Error: Not a valid Node.js project (package.json not found)''),
          sys_exit 1]
      else
      io_bind (react_create_component project_path name component_type directory) (\<lambda>created.
      if created then print (''\<newline>'' @ u_done @ '' Component generated successfully!'')
      else sys_exit 1))))))\<close>

subsection \<open>The templates of the monorepo script\<close>

definition monorepo_generate_basic_component :: "string \<Rightarrow> string" where
  \<open>monorepo_generate_basic_component name =
    (let pascal_name = to_pascal_case name
     in concat
       [''interface '' @ pascal_name @ ''Props {\<newline>'',
        ''  // Add your props here\<newline>'',
        ''}\<newline>'',
        ''\<newline>'',
        ''export function '' @ pascal_name @ ''({  }: '' @ pascal_name @ ''Props) {\<newline>'',
        ''  return (\<newline>'',
        ''    <div>\<newline>'',
        ''      <h2>'' @ pascal_name @ ''</h2>\<newline>'',
        ''    </div>\<newline>'',
        ''  )\<newline>'',
        ''}\<newline>''])\<close>

definition monorepo_generate_component_with_children :: "string \<Rightarrow> string" where
  \<open>monorepo_generate_component_with_children name =
    (let pascal_name = to_pascal_case name
     in concat
       [''import { ReactNode } from \'react'' @ sq @ ''\<newline>'',
        ''import { cn } from \'@/lib/utils'' @ sq @ ''\<newline>'',
        ''\<newline>'',
        ''interface '' @ pascal_name @ ''Props {\<newline>'',
        ''  children: ReactNode\<newline>'',
        ''  className?: string\<newline>'',
        ''}\<newline>'',
        ''\<newline>'',
        ''export function '' @ pascal_name @ ''({ children, className }: '' @ pascal_name @ ''Props) {\<newline>'',
        ''  return (\<newline>'',
        ''    <div className={cn(className)}>\<newline>'',
        ''      {children}\<newline>'',
        ''    </div>\<newline>'',
        ''  )\<newline>'',
        ''}\<newline>''])\<close>

definition monorepo_generate_component_with_state :: "string \<Rightarrow> string" where
  \<open>monorepo_generate_component_with_state name =
    (let pascal_name = to_pascal_case name
     in concat
       [''import { useState } from \'react'' @ sq @ ''\<newline>'',
        ''import { Button } from \'@/components/ui/button'' @ sq @ ''\<newline>'',
        ''\<newline>'',
        ''interface '' @ pascal_name @ ''Props {\<newline>'',
        ''  initialValue?: number\<newline>'',
        ''}\<newline>'',
        ''\<newline>'',
        ''export function '' @ pascal_name @ ''({ initialValue = 0 }: '' @ pascal_name @ ''Props) {\<newline>'',
        ''  const [count, setCount] = useState(initialValue)\<newline>'',
        ''\<newline>'',
        ''  return (\<newline>'',
        ''    <div className=\'space-y-4\'>\<newline>'',
        ''      <h2 className=\'text-2xl font-bold\'>'' @ pascal_name @ ''</h2>\<newline>'',
        ''      <p className=\'text-lg\'>Count: {count}</p>\<newline>'',
        ''      <div className=\'space-x-2\'>\<newline>'',
        ''        <Button onClick={() => setCount(count + 1)}>\<newline>'',
        ''          Increment\<newline>'',
        ''        </Button>\<newline>'',
        ''        <Button variant=\'outline\' onClick={() => setCount(count - 1)}>\<newline>'',
        ''          Decrement\<newline>'',
        ''        </Button>\<newline>'',
        ''      </div>\<newline>'',
        ''    </div>\<newline>'',
        ''  )\<newline>'',
        ''}\<newline>''])\<close>

definition monorepo_generate_form_component :: "string \<Rightarrow> string" where
  \<open>monorepo_generate_form_component name =
    (let pascal_name = to_pascal_case name
     in concat
       [''import { useState } from \'react'' @ sq @ ''\<newline>'',
        ''import { Button } from \'@/components/ui/button'' @ sq @ ''\<newline>'',
        ''import { Input } from \'@/components/ui/input'' @ sq @ ''\<newline>'',
        ''import { Label } from \'@/components/ui/label'' @ sq @ ''\<newline>'',
        ''\<newline>'',
        ''interface '' @ pascal_name @ ''Props {\<newline>'',
        ''  onSubmit: (data: FormData) => void | Promise<void>\<newline>'',
        ''}\<newline>'',
        ''\<newline>'',
        ''interface FormData {\<newline>'',
        ''  name: string\<newline>'',
        ''  email: string\<newline>'',
        ''}\<newline>'',
        ''\<newline>'',
        ''export function '' @ pascal_name @ ''({ onSubmit }: '' @ pascal_name @ ''Props) {\<newline>'',
        ''  const [isLoading, setIsLoading] = useState(false)\<newline>'',
        ''  const [formData, setFormData] = useState<FormData>({\<newline>'',
        ''    name: '' @ sq @ ''\',\<newline>'',
        ''    email: '' @ sq @ ''\',\<newline>'',
        ''  })\<newline>'',
        ''\<newline>'',
        ''  const handleSubmit = async (e: React.FormEvent) => {\<newline>'',
        ''    e.preventDefault()\<newline>'',
        ''    setIsLoading(true)\<newline>'',
        ''    \<newline>'',
        ''    try {\<newline>'',
        ''      await onSubmit(formData)\<newline>'',
        ''    } finally {\<newline>'',
        ''      setIsLoading(false)\<newline>'',
        ''    }\<newline>'',
        ''  }\<newline>'',
        ''\<newline>'',
        ''  const handleChange = (e: React.ChangeEvent<HTMLInputElement>) => {\<newline>'',
        ''    setFormData(prev => ({\<newline>'',
        ''      ...prev,\<newline>'',
        ''      [e.target.name]: e.target.value\<newline>'',
        ''    }))\<newline>'',
        ''  }\<newline>'',
        ''\<newline>'',
        ''  return (\<newline>'',
        ''    <form onSubmit={handleSubmit} className=\'space-y-4\'>\<newline>'',
        ''      <div className=\'space-y-2\'>\<newline>'',
        ''        <Label htmlFor=\'name\'>Name</Label>\<newline>'',
        ''        <Input\<newline>'',
        ''          id=\'name'' @ sq @ ''\<newline>'',
        ''          name=\'name'' @ sq @ ''\<newline>'',
        ''          value={formData.name}\<newline>'',
        ''          onChange={handleChange}\<newline>'',
        ''          required\<newline>'',
        ''        />\<newline>'',
        ''      </div>\<newline>'',
        ''\<newline>'',
        ''      <div className=\'space-y-2\'>\<newline>'',
        ''        <Label htmlFor=\'email\'>Email</Label>\<newline>'',
        ''        <Input\<newline>'',
        ''          id=\'email'' @ sq @ ''\<newline>'',
        ''          name=\'email'' @ sq @ ''\<newline>'',
        ''          type=\'email'' @ sq @ ''\<newline>'',
        ''          value={formData.email}\<newline>'',
        ''          onChange={handleChange}\<newline>'',
        ''          required\<newline>'',
        ''        />\<newline>'',
        ''      </div>\<newline>'',
        ''\<newline>'',
        ''      <Button type=\'submit\' disabled={isLoading}>\<newline>'',
        ''        {isLoading ? \'Submitting...\' : \'Submit\'}\<newline>'',
        ''      </Button>\<newline>'',
        ''    </form>\<newline>'',
        ''  )\<newline>'',
        ''}\<newline>''])\<close>

definition monorepo_generate_card_component :: "string \<Rightarrow> string" where
  \<open>monorepo_generate_card_component name =
    (let pascal_name = to_pascal_case name
     in concat
       [''import { Card, CardContent, CardDescription, CardHeader, CardTitle } from \'@/components/ui/card'' @ sq @ ''\<newline>'',
        ''\<newline>'',
        ''interface '' @ pascal_name @ ''Props {\<newline>'',
        ''  title: string\<newline>'',
        ''  description?: string\<newline>'',
        ''  children?: React.ReactNode\<newline>'',
        ''}\<newline>'',
        ''\<newline>'',
        ''export function '' @ pascal_name @ ''({ title, description, children }: '' @ pascal_name @ ''Props) {\<newline>'',
        ''  return (\<newline>'',
        ''    <Card>\<newline>'',
        ''      <CardHeader>\<newline>'',
        ''        <CardTitle>{title}</CardTitle>\<newline>'',
        ''        {description && <CardDescription>{description}</CardDescription>}\<newline>'',
        ''      </CardHeader>\<newline>'',
        ''      <CardContent>\<newline>'',
        ''        {children}\<newline>'',
        ''      </CardContent>\<newline>'',
        ''    </Card>\<newline>'',
        ''  )\<newline>'',
        ''}\<newline>''])\<close>

definition monorepo_generate_list_component :: "string \<Rightarrow> string" where
  \<open>monorepo_generate_list_component name =
    (let pascal_name = to_pascal_case name
     in concat
       [''interface '' @ pascal_name @ ''Item {\<newline>'',
        ''  id: string | number\<newline>'',
        ''  // Add more fields as needed\<newline>'',
        ''}\<newline>'',
        ''\<newline>'',
        ''interface '' @ pascal_name @ ''Props {\<newline>'',
        ''  items: '' @ pascal_name @ ''Item[]\<newline>'',
        ''  renderItem: (item: '' @ pascal_name @ ''Item) => React.ReactNode\<newline>'',
        ''  emptyMessage?: string\<newline>'',
        ''}\<newline>'',
        ''\<newline>'',
        ''export function '' @ pascal_name @ ''({ items, renderItem, emptyMessage = \'No items found\' }: '' @ pascal_name @ ''Props) {\<newline>'',
        ''  if (items.length === 0) {\<newline>'',
        ''    return (\<newline>'',
        ''      <div className=\'text-center py-8 text-muted-foreground\'>\<newline>'',
        ''        {emptyMessage}\<newline>'',
        ''      </div>\<newline>'',
        ''    )\<newline>'',
        ''  }\<newline>'',
        ''\<newline>'',
        ''  return (\<newline>'',
        ''    <div className=\'space-y-4\'>\<newline>'',
        ''      {items.map(item => (\<newline>'',
        ''        <div key={item.id}>\<newline>'',
        ''          {renderItem(item)}\<newline>'',
        ''        </div>\<newline>'',
        ''      ))}\<newline>'',
        ''    </div>\<newline>'',
        ''  )\<newline>'',
        ''}\<newline>''])\<close>

definition monorepo_generate_modal_component :: "string \<Rightarrow> string" where
  \<open>monorepo_generate_modal_component name =
    (let pascal_name = to_pascal_case name
     in concat
       [''import { Dialog, DialogContent, DialogDescription, DialogHeader, DialogTitle } from \'@/components/ui/dialog'' @ sq @ ''\<newline>'',
        ''import { Button } from \'@/components/ui/button'' @ sq @ ''\<newline>'',
        ''\<newline>'',
        ''interface '' @ pascal_name @ ''Props {\<newline>'',
        ''  open: boolean\<newline>'',
        ''  onOpenChange: (open: boolean) => void\<newline>'',
        ''  title: string\<newline>'',
        ''  description?: string\<newline>'',
        ''  children?: React.ReactNode\<newline>'',
        ''  onConfirm?: () => void\<newline>'',
        ''}\<newline>'',
        ''\<newline>'',
        ''export function '' @ pascal_name @ ''({\<newline>'',
        ''  open,\<newline>'',
        ''  onOpenChange,\<newline>'',
        ''  title,\<newline>'',
        ''  description,\<newline>'',
        ''  children,\<newline>'',
        ''  onConfirm\<newline>'',
        ''}: '' @ pascal_name @ ''Props) {\<newline>'',
        ''  return (\<newline>'',
        ''    <Dialog open={open} onOpenChange={onOpenChange}>\<newline>'',
        ''      <DialogContent>\<newline>'',
        ''        <DialogHeader>\<newline>'',
        ''          <DialogTitle>{title}</DialogTitle>\<newline>'',
        ''          {description && <DialogDescription>{description}</DialogDescription>}\<newline>'',
        ''        </DialogHeader>\<newline>'',
        ''        <div className=\'py-4\'>\<newline>'',
        ''          {children}\<newline>'',
        ''        </div>\<newline>'',
        ''        <div className=\'flex justify-end gap-2\'>\<newline>'',
        ''          <Button variant=\'outline\' onClick={() => onOpenChange(false)}>\<newline>'',
        ''            Cancel\<newline>'',
        ''          </Button>\<newline>'',
        ''          {onConfirm && (\<newline>'',
        ''            <Button onClick={onConfirm}>\<newline>'',
        ''              Confirm\<newline>'',
        ''            </Button>\<newline>'',
        ''          )}\<newline>'',
        ''        </div>\<newline>'',
        ''      </DialogContent>\<newline>'',
        ''    </Dialog>\<newline>'',
        ''  )\<newline>'',
        ''}\<newline>''])\<close>

subsection \<open>\<open>create_component\<close>, \<open>find_frontend_package\<close> and \<open>main\<close> of the monorepo script\<close>

definition monorepo_generators :: "(string \<times> (string \<Rightarrow> string)) list" where
  "monorepo_generators =
    [(''basic'', monorepo_generate_basic_component),
     (''children'', monorepo_generate_component_with_children),
     (''state'', monorepo_generate_component_with_state),
     (''form'', monorepo_generate_form_component),
     (''card'', monorepo_generate_card_component),
     (''list'', monorepo_generate_list_component),
     (''modal'', monorepo_generate_modal_component)]"

definition monorepo_create_component :: "Path \<Rightarrow> string \<Rightarrow> string \<Rightarrow> string \<Rightarrow> bool io" where
  \<open>monorepo_create_component project_path name component_type directory =
    io_then (print (''\<newline>'' @ cp_rocket @ '' Generating '' @ name @ '' component ('' @ component_type @ '')\<newline>''))
    (case map_of monorepo_generators component_type of
       None \<Rightarrow>
         io_then (io_seq
           [print (cp_cross @ '' Unknown component type: '' @ component_type),
            print (''Available types: '' @ join '', '' (map fst monorepo_generators))])
         (io_return False)
     | Some generator \<Rightarrow>
    (let content = generator name;
         pascal_name = to_pascal_case name;
         component_path =
           (if directory = ''ui'' then
              path_div (path_div (path_div (path_div project_path ''src'') ''components'') ''ui'')
                (pascal_name @ ''.tsx'')
            else
              path_div (path_div (path_div (path_div project_path ''src'') ''components'') directory)
                (pascal_name @ ''.tsx''));
         index_path = path_div (path_parent component_path) ''index.ts'';
         export_line = ''export { '' @ pascal_name @ '' } from \'./'' @ pascal_name @ sq @ ''\<newline>''
     in
     io_then (fs_update (\<lambda>fs. Path_mkdir True True fs (path_parent component_path)))
    (io_then (fs_update (\<lambda>fs. write_text fs component_path content))
    (io_bind (io_raise_or_return (relative_to component_path project_path)) (\<lambda>rel.
     io_then (print (cp_check @ '' Created '' @ path_str rel))
    (io_bind (fs_test (\<lambda>fs. path_exists fs index_path)) (\<lambda>index_exists.
     io_then
       (if \<not> index_exists then
          io_then (fs_update (\<lambda>fs. write_text fs index_path export_line))
         (io_bind (io_raise_or_return (relative_to index_path project_path)) (\<lambda>rel.
          print (cp_check @ '' Created '' @ path_str rel)))
        else
          io_then (fs_update (\<lambda>fs. append_text fs index_path export_line))
         (io_bind (io_raise_or_return (relative_to index_path project_path)) (\<lambda>rel.
          print (cp_check @ '' Updated '' @ path_str rel))))
     (io_return True))))))))\<close>

text \<open>
  \<open>packages_dir.iterdir()\<close> yields the entries of the directory in an order the operating
  system chooses: \<open>order\<close> lists names in that order, and the entries are those of its
  names that exist in the directory.
\<close>

definition iterdir :: "string list \<Rightarrow> filesystem \<Rightarrow> Path \<Rightarrow> exn + Path list" where
  "iterdir order fs p =
    (case resolve fs p of
       Inl e \<Rightarrow> Inl e
     | Inr a \<Rightarrow>
         if isdir_at fs a then
           Inr (map (path_div p)
                 (filter (\<lambda>n. isdir_at fs (a @ [n]) \<or> isfile_at fs (a @ [n])) order))
         else if isfile_at fs a then Inl NotADirectoryError
         else Inl FileNotFoundError)"

definition find_frontend_package :: "string list \<Rightarrow> Path \<Rightarrow> string option \<Rightarrow> Path option io" where
  \<open>find_frontend_package order project_path package_name =
    (let packages_dir = path_div project_path ''packages'' in
     io_bind (fs_test (\<lambda>fs. path_exists fs packages_dir)) (\<lambda>packages_exist.
     if \<not> packages_exist then
       io_then (print (cp_cross @ '' Not a valid monorepo project (packages directory not found)''))
         (io_return None)
     else if truthy package_name then
       (let package_path = path_div packages_dir (content_of package_name) in
        io_bind (fs_test (\<lambda>fs. path_exists fs package_path \<and>
                   path_exists fs (path_div (path_div package_path ''src'') ''components''))) (\<lambda>found.
        if found then io_return (Some package_path)
        else
          io_then (print (cp_cross @ '' Frontend package '' @ sq @ content_of package_name @ ''\' not found or not configured''))
            (io_return None)))
     else
       io_bind (fs_read (\<lambda>fs. iterdir order fs packages_dir)) (\<lambda>entries.
       io_bind (fs_read (\<lambda>fs. Inr (find (\<lambda>package_dir. path_is_dir fs package_dir \<and>
                   path_exists fs (path_div (path_div package_dir ''src'') ''components'')) entries)))
         (\<lambda>first.
       case first of
         Some package_dir \<Rightarrow> io_return (Some package_dir)
       | None \<Rightarrow>
           io_then (print (cp_cross @ '' No frontend package found in monorepo'')) (io_return None)))))\<close>

text \<open>
  The command line: \<open>name\<close> (required), \<open>--type\<close>, \<open>--directory\<close>, \<open>--package\<close> and
  \<open>--project-path\<close>.
\<close>

datatype monorepo_argv =
  Monorepo_argv (margv_name: "string option") (margv_type: "string option")
    (margv_directory: "string option") (margv_package: "string option")
    (margv_project_path: "string option")

definition monorepo_type_choices :: "string list" where
  "monorepo_type_choices =
    [''basic'', ''children'', ''state'', ''form'', ''card'', ''list'', ''modal'']"

definition monorepo_main :: "string list \<Rightarrow> monorepo_argv \<Rightarrow> unit io" where
  \<open>monorepo_main order argv =
    (case margv_name argv of
       None \<Rightarrow> sys_exit 2
     | Some name \<Rightarrow>
    (let component_type = arg_default (margv_type argv) ''basic'';
         directory = arg_default (margv_directory argv) ''components'';
         project_path = Path_of (arg_default (margv_project_path argv) ''.'')
     in
     if component_type \<notin> set monorepo_type_choices then sys_exit 2 else
     io_bind (find_frontend_package order project_path (margv_package argv)) (\<lambda>found.
     case found of
       None \<Rightarrow> sys_exit 1
     | Some package_path \<Rightarrow>
     io_then (print (''\<newline>'' @ cp_package @ '' Target package: '' @ path_name package_path @ ''\<newline>''))
    (io_bind (monorepo_create_component package_path name component_type directory) (\<lambda>created.
     if \<not> created then sys_exit 1
     else
       io_seq
        [print (''\<newline>'' @ cp_done @ '' Component '' @ sq @ name @ ''\' generated successfully!\<newline>''),
         print ''Usage:'',
         print (''  import { '' @ to_pascal_case name @ '' } from \'@/components/'' @ directory @ sq)])))))\<close>

section \<open>Example states\<close>

text \<open>
  A Go project as \<open>go mod init\<close> leaves it: the directory \<open>proj\<close> in the working
  directory \<open>/home\<close>, holding \<open>go.mod\<close> and nothing else. Nothing has been printed and
  standard input is empty.
\<close>

definition go_project :: world where
  "go_project =
    World (Filesystem [''home''] {[''home''], [''home'', ''proj'']}
             [[''home'', ''proj'', ''go.mod''] \<mapsto> ''module example.com/app\<newline>''])
          [] []"

text \<open>
  A monorepo \<open>mono\<close> with one frontend package, \<open>packages/web\<close>, that has a
  \<open>src/components\<close> directory and no file yet.
\<close>

definition monorepo_project :: world where
  "monorepo_project =
    World (Filesystem [''home'']
             {[''home''], [''home'', ''mono''], [''home'', ''mono'', ''packages''],
              [''home'', ''mono'', ''packages'', ''web''],
              [''home'', ''mono'', ''packages'', ''web'', ''src''],
              [''home'', ''mono'', ''packages'', ''web'', ''src'', ''components'']}
             Map.empty)
          [] []"

text \<open>
  A React project \<open>app\<close> that holds \<open>package.json\<close> and nothing else; the user will
  answer \<open>y\<close> to one question.
\<close>

definition react_project :: world where
  "react_project =
    World (Filesystem [''home''] {[''home''], [''home'', ''app'']}
             [[''home'', ''app'', ''package.json''] \<mapsto> ''{}''])
          [] [''y'']"

section \<open>Evaluation of characters\<close>

text \<open>The facts that let the simplifier compute on concrete characters and strings.\<close>

lemmas char_eval =
  char_of_def bit_Suc_0_iff isspace_def isupper_def islower_def lower_char_def upper_char_def

lemmas str_eval =
  char_eval lower_def strip_def lstrip_def rstrip_def startswith_def
  split_once_def split_ws_def replace_char_def

section \<open>The type mapper\<close>

lemma isspace_lower_char: "isspace (lower_char c) = isspace c"
  by (auto simp: isspace_def lower_char_def isupper_def Let_def)

lemma lower_char_idem: "lower_char (lower_char c) = lower_char c"
  by (auto simp: lower_char_def isupper_def)

lemma lower_idem: "lower (lower s) = lower s"
  by (simp add: lower_def lower_char_idem)

lemma dropWhile_isspace_lower: "dropWhile isspace (lower s) = lower (dropWhile isspace s)"
  by (induction s) (auto simp: lower_def isspace_lower_char)

lemma lower_rev: "lower (rev s) = rev (lower s)"
  by (simp add: lower_def rev_map)

lemma rstrip_lower: "rstrip (lower s) = lower (rstrip s)"
  by (simp add: rstrip_def lower_rev [symmetric] dropWhile_isspace_lower)

lemma rstrip_idem: "rstrip (rstrip s) = rstrip s"
  by (simp add: rstrip_def)

lemma strip_rstrip: "strip (rstrip s) = strip s"
  by (simp add: strip_def rstrip_idem)

lemma rstrip_Cons: "\<not> isspace c \<Longrightarrow> rstrip (c # s) = c # rstrip s"
  by (simp add: rstrip_def dropWhile_append3)

lemma strip_Cons: "\<not> isspace c \<Longrightarrow> strip (c # s) = c # rstrip s"
  by (simp add: strip_def rstrip_Cons lstrip_def)

text \<open>The mapper sees its argument only in lower case and stripped.\<close>

lemma map_type_norm: "map_type (rstrip (lower s)) = map_type s"
proof -
  have "strip (lower (rstrip (lower s))) = strip (lower s)"
    by (simp add: rstrip_lower [symmetric] lower_idem strip_rstrip)
  then show ?thesis
    by (subst map_type.simps, subst (2) map_type.simps) simp
qed

lemma map_type_array: "map_type (''[]'' @ T) = (''[]'' @ fst (map_type T), snd (map_type T))"
proof -
  have n: "strip (lower (''[]'' @ T)) = ''[]'' @ rstrip (lower T)"
    by (simp add: lower_def lower_char_def isupper_def strip_Cons rstrip_Cons isspace_def)
  show ?thesis
    apply (subst map_type.simps)
    apply (simp only: n Let_def)
    apply (simp add: startswith_def map_type_norm split: prod.splits)
    done
qed

lemma map_type_pointer: "map_type (''*'' @ T) = (''*'' @ fst (map_type T), snd (map_type T))"
proof -
  have n: "strip (lower (''*'' @ T)) = ''*'' @ rstrip (lower T)"
    by (simp add: lower_def lower_char_def isupper_def strip_Cons rstrip_Cons isspace_def)
  show ?thesis
    apply (subst map_type.simps)
    apply (simp only: n Let_def)
    apply (simp add: startswith_def map_type_norm split: prod.splits)
    done
qed

lemmas map_type_array_Cons = map_type_array [simplified]

lemmas map_type_pointer_Cons = map_type_pointer [simplified]

lemma map_type_wrap: "map_type (wrap ms T) = (wrap ms (fst (map_type T)), snd (map_type T))"
proof (induction ms)
  case Nil
  show ?case by (simp add: wrap_def)
next
  case (Cons m ms)
  have step: "wrap (x # ms) s = modifier_text x @ wrap ms s" for x s
    by (simp add: wrap_def)
  show ?case
  proof (cases m)
    case Array
    then show ?thesis
      using Cons.IH by (simp add: step map_type_array_Cons)
  next
    case Pointer
    then show ?thesis
      using Cons.IH by (simp add: step map_type_pointer_Cons)
  qed
qed

text \<open>
  C6. For every type string \<open>T\<close>, \<open>map_type\<close> of \<open>[]T\<close> is the mapping of \<open>T\<close> with \<open>[]\<close>
  before its Go type and the same imports, \<open>map_type\<close> of \<open>*T\<close> is the mapping of \<open>T\<close>
  with \<open>*\<close> before its Go type and the same imports, and the same holds under any list
  of modifiers, nested to any depth.
\<close>

theorem map_type_unwrap_map_rewrap:
  "map_type (''[]'' @ T) = (''[]'' @ fst (map_type T), snd (map_type T)) \<and>
   map_type (''*'' @ T) = (''*'' @ fst (map_type T), snd (map_type T)) \<and>
   map_type (wrap ms T) = (wrap ms (fst (map_type T)), snd (map_type T))"
  by (simp add: map_type_array_Cons map_type_pointer_Cons map_type_wrap)

lemma map_type_base:
  assumes "\<not> startswith (strip (lower type_str)) ''[]''"
    and "\<not> startswith (strip (lower type_str)) ''*''"
    and "TYPE_MAP (strip (lower type_str)) = None"
  shows "map_type type_str = (''string'', [])"
  using assms by (subst map_type.simps) (simp add: dict_get_def startswith_def)

text \<open>
  C7, as stated, fails: \<open>[]foo\<close> is not a key of the type table, and the mapper returns
  the Go type \<open>[]string\<close> for it, not \<open>string\<close>.
\<close>

theorem map_type_unknown_array_counterexample:
  "TYPE_MAP (strip (lower ''[]foo'')) = None \<and> map_type ''[]foo'' \<noteq> (''string'', [])"
proof -
  have "map_type ''foo'' = (''string'', [])"
    by (rule map_type_base) (simp_all add: TYPE_MAP_def TYPE_MAP_items_def str_eval)
  then have "map_type ''[]foo'' = (''[]string'', [])"
    by (simp add: map_type_array_Cons)
  then show ?thesis
    by (simp add: TYPE_MAP_def TYPE_MAP_items_def str_eval)
qed

text \<open>
  C7, amended. For every type string whose lower-case, stripped form is not a key of the
  type table and does not start with \<open>[]\<close> or \<open>*\<close>, \<open>GoTypeMapper.map_type\<close> returns the
  Go type \<open>string\<close> with no imports, and under any modifiers it returns \<open>string\<close>
  under the same modifiers, with no imports; and for every type string whose
  lower-case form is not a key of the table of \<open>Field._map_type\<close>, that function
  returns \<open>string\<close>. Neither function has a path that raises.
\<close>

theorem unknown_type_maps_to_string:
  "(TYPE_MAP (strip (lower type_str)) = None \<and>
    \<not> startswith (strip (lower type_str)) ''[]'' \<and>
    \<not> startswith (strip (lower type_str)) ''*''
      \<longrightarrow> map_type type_str = (''string'', []) \<and>
          map_type (wrap ms type_str) = (wrap ms ''string'', [])) \<and>
   (type_mapping (lower type_str) = None \<longrightarrow> Field_map_type type_str = ''string'')"
  by (simp add: map_type_base map_type_wrap Field_map_type_def dict_get_def)

theorem unknown_type_maps_to_string_witness:
  "TYPE_MAP (strip (lower '' JSON'')) = None \<and>
   \<not> startswith (strip (lower '' JSON'')) ''[]'' \<and>
   \<not> startswith (strip (lower '' JSON'')) ''*'' \<and>
   map_type '' JSON'' = (''string'', []) \<and>
   map_type ''[]* JSON'' = (''[]*string'', []) \<and>
   type_mapping (lower '' JSON'') = None \<and>
   Field_map_type '' JSON'' = ''string''"
  using unknown_type_maps_to_string [of "'' JSON''" "[Array, Pointer]"]
  by (simp add: TYPE_MAP_def TYPE_MAP_items_def type_mapping_def type_mapping_items_def wrap_def
      str_eval)

section \<open>The domain generator\<close>

lemma str_in_prefix: "str_in p (p @ b)"
  by (cases p; cases b) (auto simp: startswith_def)

lemma str_in_middle: "str_in p (a @ p @ b)"
  by (induction a) (auto simp: str_in_prefix)



lemma entity_import_time:
  \<open>str_in ''"time"'' (entity_import_block fields) \<longleftrightarrow>
   (\<exists>f \<in> set fields. f_field_type f = ''time'')\<close>
proof -
  have "(\<exists>f \<in> set fields. f_field_type f = ''time'') =
      list_ex (\<lambda>f. f_field_type f = ''time'') fields"
    by (simp add: list_ex_iff)
  then show ?thesis
    by (cases "list_ex (\<lambda>f. f_field_type f = ''time'') fields";
        cases "list_ex (\<lambda>f. f_field_type f = ''uuid'') fields")
       (simp_all add: entity_import_block_def entity_imports_def startswith_def)
qed

lemma generate_entity_layout:
  \<open>generate_entity domain_name fields module_path =
     ''package entity\<newline>\<newline>'' @ entity_import_block fields @
     ''type '' @ capitalize domain_name @ '' struct {\<newline>'' @
     tab @ ''ID        uint   `json:"id" gorm:"primaryKey"`\<newline>'' @
     join ''\<newline>'' (map to_struct_field fields) @ ''\<newline>'' @
     tab @ ''CreatedAt time.Time `json:"created_at" gorm:"autoCreateTime"`\<newline>'' @
     tab @ ''UpdatedAt time.Time `json:"updated_at" gorm:"autoUpdateTime"`\<newline>'' @
     ''}\<newline>\<newline>func (e *'' @ capitalize domain_name @ '') TableName() string {\<newline>'' @
     tab @ ''return "'' @ to_snake_case domain_name @ ''s"\<newline>}\<newline>''\<close>
  by (simp add: generate_entity_def Let_def)

text \<open>
  C10. For every list of fields, the generated entity file is \<open>package entity\<close>, the
  import block, and the struct with the user's fields between the \<open>ID\<close> line and the
  \<open>CreatedAt\<close> and \<open>UpdatedAt\<close> lines of Go type \<open>time.Time\<close>, which are always there;
  and the import block holds \<open>"time"\<close> if and only if some field has the declared type
  \<open>time\<close>. So a field list without such a field gives a file that uses \<open>time.Time\<close> and
  does not import \<open>time\<close>.
\<close>

theorem entity_imports_time_iff_time_field:
  \<open>(str_in ''"time"'' (entity_import_block fields) \<longleftrightarrow>
      (\<exists>f \<in> set fields. f_field_type f = ''time'')) \<and>
   generate_entity domain_name fields module_path =
     ''package entity\<newline>\<newline>'' @ entity_import_block fields @
     ''type '' @ capitalize domain_name @ '' struct {\<newline>'' @
     tab @ ''ID        uint   `json:"id" gorm:"primaryKey"`\<newline>'' @
     join ''\<newline>'' (map to_struct_field fields) @ ''\<newline>'' @
     tab @ ''CreatedAt time.Time `json:"created_at" gorm:"autoCreateTime"`\<newline>'' @
     tab @ ''UpdatedAt time.Time `json:"updated_at" gorm:"autoUpdateTime"`\<newline>'' @
     ''}\<newline>\<newline>func (e *'' @ capitalize domain_name @ '') TableName() string {\<newline>'' @
     tab @ ''return "'' @ to_snake_case domain_name @ ''s"\<newline>}\<newline>''\<close>
  using entity_import_time [of fields] generate_entity_layout [of domain_name fields module_path]
  by blast

section \<open>The file system\<close>

lemma walk_mono:
  "walk fs cur ns = Inr a \<Longrightarrow> fs_dirs fs \<subseteq> fs_dirs fs1 \<Longrightarrow> walk fs1 cur ns = Inr a"
proof (induction ns arbitrary: cur)
  case Nil
  then show ?case by simp
next
  case (Cons n ns)
  from Cons.prems(1) have d: "isdir_at fs cur"
    by (auto split: if_splits)
  with Cons.prems(2) have d1: "isdir_at fs1 cur"
    by (auto simp: isdir_at_def)
  from Cons.prems(1) d have "walk fs (if n = ''..'' then butlast cur else cur @ [n]) ns = Inr a"
    by simp
  then have "walk fs1 (if n = ''..'' then butlast cur else cur @ [n]) ns = Inr a"
    using Cons.prems(2) by (rule Cons.IH)
  with d1 show ?case by simp
qed

lemma walk_append:
  "walk fs cur (ns @ ms) = (case walk fs cur ns of Inl e \<Rightarrow> Inl e | Inr a \<Rightarrow> walk fs a ms)"
  by (induction ns arbitrary: cur) auto

lemma resolve_mono:
  "resolve fs p = Inr a \<Longrightarrow> fs_dirs fs \<subseteq> fs_dirs fs1 \<Longrightarrow> fs_cwd fs1 = fs_cwd fs \<Longrightarrow>
   resolve fs1 p = Inr a"
  unfolding resolve_def by (auto intro: walk_mono)

lemma os_mkdir_post: "os_mkdir fs p = Inr fs1 \<Longrightarrow> mkdir_post fs fs1 p"
proof -
  assume h: "os_mkdir fs p = Inr fs1"
  then obtain a where a: "resolve fs p = Inr a"
    by (auto simp: os_mkdir_def split: sum.splits)
  with h have fs1: "fs1 = Filesystem (fs_cwd fs) (insert a (fs_dirs fs)) (fs_files fs)"
    by (auto simp: os_mkdir_def split: if_splits)
  have "resolve fs1 p = Inr a"
    using a by (rule resolve_mono) (auto simp: fs1)
  then show ?thesis
    by (auto simp: mkdir_post_def fs1 isdir_at_def)
qed

lemma mkdir_post_trans:
  "mkdir_post fs fs' q \<Longrightarrow> mkdir_post fs' fs1 p \<Longrightarrow> mkdir_post fs fs1 p"
  by (auto simp: mkdir_post_def)

lemma mkdir_post_refl: "path_is_dir fs p \<Longrightarrow> mkdir_post fs fs p"
  by (auto simp: mkdir_post_def path_is_dir_def split: sum.splits)


lemma Path_mkdir_post: "Path_mkdir parents exist_ok fs p = Inr fs1 \<Longrightarrow> mkdir_post fs fs1 p"
proof (induction parents exist_ok fs p arbitrary: fs1 rule: Path_mkdir.induct)
  case (1 parents exist_ok fs p)
  show ?case
  proof (cases "os_mkdir fs p")
    case (Inr fs')
    with "1.prems" have "fs1 = fs'" by (subst (asm) Path_mkdir.simps) simp
    with Inr show ?thesis by (simp add: os_mkdir_post)
  next
    case (Inl e)
    show ?thesis
    proof (cases "e = FileNotFoundError")
      case True
      have "Path_mkdir parents exist_ok fs p =
          (if parents \<and> path_parent p \<noteq> p
           then (case Path_mkdir True True fs (path_parent p) of
                   Inl e' \<Rightarrow> Inl e'
                 | Inr fs' \<Rightarrow> Path_mkdir False exist_ok fs' p)
           else Inl e)"
        using Inl True by (subst Path_mkdir.simps) simp
      with "1.prems" have rec: "parents \<and> path_parent p \<noteq> p"
        by (auto split: if_splits)
      have "Path_mkdir parents exist_ok fs p =
          (case Path_mkdir True True fs (path_parent p) of
             Inl e' \<Rightarrow> Inl e'
           | Inr fs' \<Rightarrow> Path_mkdir False exist_ok fs' p)"
        using Inl True rec by (subst Path_mkdir.simps) simp
      with "1.prems" obtain fs' where
        a: "Path_mkdir True True fs (path_parent p) = Inr fs'" and
        b: "Path_mkdir False exist_ok fs' p = Inr fs1"
        by (auto split: sum.splits)
      from "1.IH"(1) [OF Inl True rec a] have "mkdir_post fs fs' (path_parent p)" .
      moreover from "1.IH"(2) [OF Inl True rec a b] have "mkdir_post fs' fs1 p" .
      ultimately show ?thesis by (rule mkdir_post_trans)
    next
      case False
      have "Path_mkdir parents exist_ok fs p =
          (if exist_ok \<and> path_is_dir fs p then Inr fs else Inl e)"
        using Inl False by (subst Path_mkdir.simps) simp
      with "1.prems" have "exist_ok \<and> path_is_dir fs p \<and> fs1 = fs"
        by (auto split: if_splits)
      then show ?thesis by (simp add: mkdir_post_refl)
    qed
  qed
qed

text \<open>Reading text: line ends are translated, and bytes that are not UTF-8 raise.\<close>

lemma decode_text_newlines:
  "decode_text (''a'' @ [CHR 0x0D, CHR 0x0A] @ ''b'' @ [CHR 0x0D] @ ''c'') = Inr ''a\<newline>b\<newline>c''"
  by (simp add: decode_text_def in_range_def)

lemma decode_text_invalid: "decode_text [CHR 0xC3, CHR 0x28] = Inl UnicodeDecodeError"
  by (simp add: decode_text_def in_range_def)

section \<open>The infrastructure generator\<close>

text \<open>The facts that let the simplifier run a script on a concrete state.\<close>

lemmas fs_eval =
  Path_of_def root_of_def path_div_def path_parent_def path_name_def path_str_def relative_to_def
  resolve_def isdir_at_def isfile_at_def path_exists_def path_is_dir_def os_mkdir_def
  Path_mkdir.simps write_text_def read_text_def append_text_def decode_text_def in_range_def
  readlines_def

lemmas io_eval =
  io_return_def io_raise_def io_bind_def io_then_def print_def input_def sys_exit_def
  fs_update_def fs_read_def fs_test_def io_raise_or_return_def

lemma Path_mkdir_files: "Path_mkdir parents exist_ok fs p = Inr fs1 \<Longrightarrow> fs_files fs1 = fs_files fs"
  by (drule Path_mkdir_post) (simp add: mkdir_post_def)

lemma create_infrastructure_unsupported:
  assumes "\<not> truthy (fst (select_content infra_type provider)) \<or>
           \<not> truthy (snd (select_content infra_type provider))"
  shows "case create_infrastructure project_path infra_type provider w of
     (r, w') \<Rightarrow>
       fs_files (w_fs w') = fs_files (w_fs w) \<and>
       (case Path_mkdir True True (w_fs w)
               (path_div (path_div (path_div project_path ''internal'') ''infrastructure'') infra_type) of
          Inl e \<Rightarrow>
            r = Inl e \<and> w_fs w' = w_fs w \<and>
            w_out w' = w_out w @
              [''\<newline>'' @ cp_rocket @ '' Adding '' @ infra_type @ '' infrastructure with '' @ provider @ '' provider\<newline>'']
        | Inr fs1 \<Rightarrow>
            r = Inr () \<and> w_fs w' = fs1 \<and>
            w_out w' = w_out w @
              [''\<newline>'' @ cp_rocket @ '' Adding '' @ infra_type @ '' infrastructure with '' @ provider @ '' provider\<newline>'',
               cp_cross @ '' Unsupported combination: '' @ infra_type @ ''/'' @ provider])"
proof (cases "select_content infra_type provider")
  case (Pair interface_content impl_content)
  with assms have "\<not> truthy interface_content \<or> \<not> truthy impl_content"
    by simp
  then show ?thesis
    by (auto simp: create_infrastructure_def Pair io_eval Path_mkdir_files split: sum.splits)
qed

text \<open>
  C3. For every type and provider for which the generator has no interface content or
  no implementation content, \<open>create_infrastructure\<close> leaves every file as it was,
  whatever else happens. It prints its banner and creates the directory; when that
  succeeds it prints the message \<open>Unsupported combination: type/provider\<close> and returns,
  and when it fails the exception of \<open>mkdir\<close> ends the run before the message.
\<close>

theorem unsupported_combination_writes_no_file:
  assumes "\<not> truthy (fst (select_content infra_type provider)) \<or>
           \<not> truthy (snd (select_content infra_type provider))"
  shows "case create_infrastructure project_path infra_type provider w of
     (r, w') \<Rightarrow>
       fs_files (w_fs w') = fs_files (w_fs w) \<and>
       (case Path_mkdir True True (w_fs w)
               (path_div (path_div (path_div project_path ''internal'') ''infrastructure'') infra_type) of
          Inl e \<Rightarrow>
            r = Inl e \<and> w_fs w' = w_fs w \<and>
            w_out w' = w_out w @
              [''\<newline>'' @ cp_rocket @ '' Adding '' @ infra_type @ '' infrastructure with '' @ provider @ '' provider\<newline>'']
        | Inr fs1 \<Rightarrow>
            r = Inr () \<and> w_fs w' = fs1 \<and>
            w_out w' = w_out w @
              [''\<newline>'' @ cp_rocket @ '' Adding '' @ infra_type @ '' infrastructure with '' @ provider @ '' provider\<newline>'',
               cp_cross @ '' Unsupported combination: '' @ infra_type @ ''/'' @ provider])"
  using assms by (rule create_infrastructure_unsupported)

theorem unsupported_combination_writes_no_file_witness:
  "\<not> truthy (snd (select_content ''queue'' ''kafka'')) \<and>
   fst (create_infrastructure (Path_of ''proj'') ''queue'' ''kafka'' go_project) = Inr () \<and>
   fs_files (w_fs (snd (create_infrastructure (Path_of ''proj'') ''queue'' ''kafka'' go_project))) =
     fs_files (w_fs go_project) \<and>
   w_out (snd (create_infrastructure (Path_of ''proj'') ''queue'' ''kafka'' go_project)) =
     [''\<newline>'' @ cp_rocket @ '' Adding queue infrastructure with kafka provider\<newline>'',
      cp_cross @ '' Unsupported combination: queue/kafka'']"
proof -
  have sc: "select_content ''queue'' ''kafka'' = (None, None)"
    by (simp add: select_content_def)
  have mk: "Path_mkdir True True (w_fs go_project)
      (path_div (path_div (path_div (Path_of ''proj'') ''internal'') ''infrastructure'') ''queue'') =
    Inr (Filesystem [''home'']
          {[''home'', ''proj'', ''internal'', ''infrastructure'', ''queue''],
           [''home'', ''proj'', ''internal'', ''infrastructure''],
           [''home'', ''proj'', ''internal''], [''home''], [''home'', ''proj'']}
          [[''home'', ''proj'', ''go.mod''] \<mapsto> ''module example.com/app\<newline>''])"
    by (simp add: go_project_def fs_eval str_eval insert_commute)
  obtain r w' where rw:
    "create_infrastructure (Path_of ''proj'') ''queue'' ''kafka'' go_project = (r, w')"
    by (cases "create_infrastructure (Path_of ''proj'') ''queue'' ''kafka'' go_project")
  have "fs_files (w_fs w') = fs_files (w_fs go_project) \<and> r = Inr () \<and>
      w_out w' = w_out go_project @
        [''\<newline>'' @ cp_rocket @ '' Adding queue infrastructure with kafka provider\<newline>'',
         cp_cross @ '' Unsupported combination: queue/kafka'']"
    using unsupported_combination_writes_no_file
      [where infra_type = "''queue''" and provider = "''kafka''"
         and project_path = "Path_of ''proj''" and w = go_project]
    by (simp add: rw sc mk truthy_def) (simp add: go_project_def)
  moreover have "w_out go_project = []"
    by (simp add: go_project_def)
  ultimately show ?thesis
    by (simp add: rw sc truthy_def)
qed

lemma Path_mkdir_error:
  "Path_mkdir parents exist_ok fs p = Inl e \<Longrightarrow>
   e \<in> {FileNotFoundError, NotADirectoryError, FileExistsError}"
proof (induction parents exist_ok fs p arbitrary: e rule: Path_mkdir.induct)
  case (1 parents exist_ok fs p)
  show ?case
  proof (cases "os_mkdir fs p")
    case (Inr fs')
    with "1.prems" show ?thesis by (subst (asm) Path_mkdir.simps) simp
  next
    case (Inl e0)
    have e0: "e0 \<in> {FileNotFoundError, NotADirectoryError, FileExistsError}"
    proof -
      have w: "walk fs cur ns = Inl x \<Longrightarrow> x \<in> {FileNotFoundError, NotADirectoryError}" for cur ns x
        by (induction ns arbitrary: cur) (auto split: if_splits)
      from Inl show ?thesis
        by (auto simp: os_mkdir_def resolve_def split: sum.splits if_splits dest: w)
    qed
    show ?thesis
    proof (cases "e0 = FileNotFoundError")
      case True
      show ?thesis
      proof (cases "parents \<and> path_parent p \<noteq> p")
        case rec: True
        have unf: "Path_mkdir parents exist_ok fs p =
            (case Path_mkdir True True fs (path_parent p) of
               Inl e' \<Rightarrow> Inl e'
             | Inr fs' \<Rightarrow> Path_mkdir False exist_ok fs' p)"
          using Inl True rec by (subst Path_mkdir.simps) simp
        show ?thesis
        proof (cases "Path_mkdir True True fs (path_parent p)")
          case a: (Inl e')
          with unf "1.prems" have "e = e'" by simp
          with "1.IH"(1) [OF Inl True rec a] show ?thesis by simp
        next
          case a: (Inr fs')
          with unf "1.prems" have b: "Path_mkdir False exist_ok fs' p = Inl e" by simp
          from "1.IH"(2) [OF Inl True rec a b] show ?thesis .
        qed
      next
        case False
        have "Path_mkdir parents exist_ok fs p = Inl e0"
          using Inl True False by (subst Path_mkdir.simps) auto
        with "1.prems" e0 show ?thesis by simp
      qed
    next
      case False
      have "Path_mkdir parents exist_ok fs p =
          (if exist_ok \<and> path_is_dir fs p then Inr fs else Inl e0)"
        using Inl False by (subst Path_mkdir.simps) simp
      with "1.prems" e0 show ?thesis by (auto split: if_splits)
    qed
  qed
qed

lemma Path_mkdir_exit_status: "Path_mkdir parents exist_ok fs p = Inl e \<Longrightarrow> exit_status (Inl e) = 1"
  by (drule Path_mkdir_error) auto

lemma main_accepted:
  assumes st: "map_of SUPPORTED_TYPES infra_type = Some providers"
    and pr: "provider \<in> set providers"
  shows \<open>add_infrastructure_main (Infra_argv (Some infra_type) (Some provider) project_path_arg) w =
    (if \<not> path_exists (w_fs w) (Path_of (arg_default project_path_arg ''.'')) then
       (Inl (SystemExit 1),
        World (w_fs w)
          (w_out w @ [cp_cross @ '' Error: Project path '' @ sq @ arg_default project_path_arg ''.'' @ ''\' does not exist''])
          (w_stdin w))
     else if \<not> path_exists (w_fs w) (path_div (Path_of (arg_default project_path_arg ''.'')) ''go.mod'') then
       (Inl (SystemExit 1),
        World (w_fs w) (w_out w @ [cp_cross @ '' Error: Not a Go project (go.mod not found)''])
          (w_stdin w))
     else create_infrastructure (Path_of (arg_default project_path_arg ''.'')) infra_type provider w)\<close>
proof -
  from st have "infra_type \<in> set (map fst SUPPORTED_TYPES)"
    by (auto dest!: map_of_SomeD intro: rev_image_eqI)
  then show ?thesis
    using st pr
    by (simp add: add_infrastructure_main_def io_eval Let_def)
qed

lemma templates_nonempty:
  "get_storage_interface \<noteq> []" "get_storage_local \<noteq> []" "get_storage_s3 \<noteq> []"
  "get_storage_gcs \<noteq> []" "get_cache_interface \<noteq> []" "get_cache_redis \<noteq> []"
  "get_cache_memory \<noteq> []"
  by (simp_all add: get_storage_interface_def get_storage_local_def get_storage_s3_def
      get_storage_gcs_def get_cache_interface_def get_cache_redis_def get_cache_memory_def)

text \<open>
  The exit status of an invocation that the argument resolver accepts and for which
  the generator has no content: 0 when the project passes the two checks of \<open>main\<close>
  and the directory can be created, 1 otherwise.
\<close>

lemma unsupported_exit_status:
  assumes "map_of SUPPORTED_TYPES infra_type = Some providers"
    and "provider \<in> set providers"
    and "\<not> truthy (fst (select_content infra_type provider)) \<or>
         \<not> truthy (snd (select_content infra_type provider))"
  shows "exit_status (fst (add_infrastructure_main
            (Infra_argv (Some infra_type) (Some provider) project_path_arg) w)) =
    (if path_exists (w_fs w) (Path_of (arg_default project_path_arg ''.'')) \<and>
        path_exists (w_fs w) (path_div (Path_of (arg_default project_path_arg ''.'')) ''go.mod'') \<and>
        \<not> isl (Path_mkdir True True (w_fs w)
                 (path_div (path_div (path_div (Path_of (arg_default project_path_arg ''.''))
                    ''internal'') ''infrastructure'') infra_type))
     then 0 else 1)"
proof -
  obtain r w' where rw:
    "create_infrastructure (Path_of (arg_default project_path_arg ''.'')) infra_type provider w = (r, w')"
    by (cases "create_infrastructure (Path_of (arg_default project_path_arg ''.'')) infra_type provider w")
  have "exit_status r =
      (if isl (Path_mkdir True True (w_fs w)
                 (path_div (path_div (path_div (Path_of (arg_default project_path_arg ''.''))
                    ''internal'') ''infrastructure'') infra_type)) then 1 else 0)"
    using create_infrastructure_unsupported
      [OF assms(3), where project_path = "Path_of (arg_default project_path_arg ''.'')" and w = w]
    by (auto simp: rw Path_mkdir_exit_status split: sum.splits)
  then show ?thesis
    by (simp add: main_accepted [OF assms(1,2)] rw)
qed

text \<open>The pairs that the argument resolver accepts and that have no generator.\<close>

lemma accepted_without_generator:
  "concat (map (\<lambda>(infra_type, providers).
      map (Pair infra_type)
        (filter (\<lambda>provider. \<not> truthy (snd (select_content infra_type provider))) providers))
      SUPPORTED_TYPES) =
    [(''queue'', ''redis''), (''queue'', ''kafka''), (''queue'', ''rabbitmq''),
     (''email'', ''smtp''), (''email'', ''sendgrid'')]"
  by (simp add: SUPPORTED_TYPES_def select_content_def truthy_def templates_nonempty)

text \<open>
  C2 fails on the code. \<open>--type=queue --provider=kafka\<close> passes the argument resolver
  (\<open>kafka\<close> is a provider of \<open>queue\<close> in \<open>SUPPORTED_TYPES\<close>) and no generator exists for
  the pair. In a Go project the script prints its banner and the message
  \<open>Unsupported combination: queue/kafka\<close>, writes no file, and \<open>main\<close> returns: the
  exit status is 0, not 1.
\<close>

theorem queue_kafka_exits_zero:
  "map_of SUPPORTED_TYPES ''queue'' = Some [''redis'', ''kafka'', ''rabbitmq''] \<and>
   select_content ''queue'' ''kafka'' = (None, None) \<and>
   fst (add_infrastructure_main
      (Infra_argv (Some ''queue'') (Some ''kafka'') (Some ''proj'')) go_project) = Inr () \<and>
   exit_status (fst (add_infrastructure_main
      (Infra_argv (Some ''queue'') (Some ''kafka'') (Some ''proj'')) go_project)) = 0 \<and>
   w_out (snd (add_infrastructure_main
      (Infra_argv (Some ''queue'') (Some ''kafka'') (Some ''proj'')) go_project)) =
     [''\<newline>'' @ cp_rocket @ '' Adding queue infrastructure with kafka provider\<newline>'',
      cp_cross @ '' Unsupported combination: queue/kafka''] \<and>
   fs_files (w_fs (snd (add_infrastructure_main
      (Infra_argv (Some ''queue'') (Some ''kafka'') (Some ''proj'')) go_project))) =
     fs_files (w_fs go_project)"
  by (simp add: add_infrastructure_main_def create_infrastructure_def select_content_def truthy_def
      SUPPORTED_TYPES_def arg_default_def go_project_def fs_eval io_eval str_eval Let_def)

lemma resolve_child:
  assumes "resolve fs p = Inr d" and "isdir_at fs d" and "Path_of n = Path [] [n]" and "n \<noteq> ''..''"
  shows "resolve fs (path_div p n) = Inr (d @ [n])"
  using assms by (simp add: resolve_def path_div_def walk_append)

lemma write_text_child:
  assumes "resolve fs p = Inr d" and "isdir_at fs d" and "Path_of n = Path [] [n]" and "n \<noteq> ''..''"
    and "\<not> isdir_at fs (d @ [n])"
  shows "write_text fs (path_div p n) data =
    Inr (Filesystem (fs_cwd fs) (fs_dirs fs) ((fs_files fs)(d @ [n] \<mapsto> data)))"
  using assms by (simp add: write_text_def resolve_child)

lemma create_cache_redis:
  assumes mk: "Path_mkdir True True (w_fs w)
        (path_div (path_div (path_div project_path ''internal'') ''infrastructure'') ''cache'') = Inr fs1"
    and rs: "resolve fs1
        (path_div (path_div (path_div project_path ''internal'') ''infrastructure'') ''cache'') = Inr d"
    and nd1: "\<not> isdir_at fs1 (d @ [''cache.go''])"
    and nd2: "\<not> isdir_at fs1 (d @ [''redis.go''])"
  shows "create_infrastructure project_path ''cache'' ''redis'' w =
    (Inr (),
     World
       (Filesystem (fs_cwd fs1) (fs_dirs fs1)
          ((fs_files (w_fs w))(d @ [''cache.go''] \<mapsto> get_cache_interface,
                               d @ [''redis.go''] \<mapsto> get_cache_redis)))
       (w_out w @
         [''\<newline>'' @ cp_rocket @ '' Adding cache infrastructure with redis provider\<newline>'',
          cp_check @ '' Created cache/cache.go (interface)'',
          cp_check @ '' Created cache/redis.go (implementation)'',
          ''\<newline>'' @ cp_package @ '' Required dependencies:'',
          ''   - github.com/redis/go-redis/v9'',
          ''\<newline>Run: go get github.com/redis/go-redis/v9'',
          ''\<newline>'' @ cp_done @ '' Cache infrastructure added successfully!'',
          ''\<newline>Usage example:'',
          usage_cache_redis])
       (w_stdin w))"
proof -
  let ?dir = "path_div (path_div (path_div project_path ''internal'') ''infrastructure'') ''cache''"
  from Path_mkdir_post [OF mk] rs have dd: "isdir_at fs1 d" and fl: "fs_files fs1 = fs_files (w_fs w)"
    by (auto simp: mkdir_post_def)
  have w1: "write_text fs1 (path_div ?dir ''cache.go'') get_cache_interface =
      Inr (Filesystem (fs_cwd fs1) (fs_dirs fs1) ((fs_files fs1)(d @ [''cache.go''] \<mapsto> get_cache_interface)))"
    using rs dd _ _ nd1 by (rule write_text_child) (simp_all add: Path_of_def root_of_def startswith_def)
  let ?fs2 = "Filesystem (fs_cwd fs1) (fs_dirs fs1) ((fs_files fs1)(d @ [''cache.go''] \<mapsto> get_cache_interface))"
  have rs2: "resolve ?fs2 ?dir = Inr d"
    using rs by (rule resolve_mono) simp_all
  have w2: "write_text ?fs2 (path_div ?dir ''redis.go'') get_cache_redis =
      Inr (Filesystem (fs_cwd fs1) (fs_dirs fs1)
        ((fs_files fs1)(d @ [''cache.go''] \<mapsto> get_cache_interface, d @ [''redis.go''] \<mapsto> get_cache_redis)))"
    using write_text_child [OF rs2, of "''redis.go''" get_cache_redis] dd nd2
    by (simp add: isdir_at_def Path_of_def root_of_def startswith_def)
  show ?thesis
    by (simp add: create_infrastructure_def select_content_def truthy_def content_of_def
        templates_nonempty get_dependencies_def deps_items_def dict_get_def
        print_usage_example_def io_eval mk w1 [unfolded fl] w2 [unfolded fl] fl str_eval Let_def)
qed

text \<open>
  C9. With \<open>--type=cache --provider=redis\<close>, in a project that passes the two checks
  of \<open>main\<close>, where the directory \<open>internal/infrastructure/cache\<close> can be created (it
  resolves to \<open>d\<close>) and neither \<open>cache.go\<close> nor \<open>redis.go\<close> in it is a directory,
  the script returns normally; the files afterwards are the files before with exactly
  two written, \<open>cache.go\<close> with the cache interface and \<open>redis.go\<close> with the Redis
  implementation; and the output is the nine texts below, the dependency list with
  \<open>github.com/redis/go-redis/v9\<close> among them.
\<close>

theorem cache_redis_writes_two_files:
  assumes "path_exists (w_fs w) (Path_of (arg_default project_path_arg ''.''))"
    and "path_exists (w_fs w) (path_div (Path_of (arg_default project_path_arg ''.'')) ''go.mod'')"
    and "Path_mkdir True True (w_fs w)
        (path_div (path_div (path_div (Path_of (arg_default project_path_arg ''.''))
           ''internal'') ''infrastructure'') ''cache'') = Inr fs1"
    and "resolve fs1
        (path_div (path_div (path_div (Path_of (arg_default project_path_arg ''.''))
           ''internal'') ''infrastructure'') ''cache'') = Inr d"
    and "\<not> isdir_at fs1 (d @ [''cache.go''])"
    and "\<not> isdir_at fs1 (d @ [''redis.go''])"
  shows "add_infrastructure_main (Infra_argv (Some ''cache'') (Some ''redis'') project_path_arg) w =
    (Inr (),
     World
       (Filesystem (fs_cwd fs1) (fs_dirs fs1)
          ((fs_files (w_fs w))(d @ [''cache.go''] \<mapsto> get_cache_interface,
                               d @ [''redis.go''] \<mapsto> get_cache_redis)))
       (w_out w @
         [''\<newline>'' @ cp_rocket @ '' Adding cache infrastructure with redis provider\<newline>'',
          cp_check @ '' Created cache/cache.go (interface)'',
          cp_check @ '' Created cache/redis.go (implementation)'',
          ''\<newline>'' @ cp_package @ '' Required dependencies:'',
          ''   - github.com/redis/go-redis/v9'',
          ''\<newline>Run: go get github.com/redis/go-redis/v9'',
          ''\<newline>'' @ cp_done @ '' Cache infrastructure added successfully!'',
          ''\<newline>Usage example:'',
          usage_cache_redis])
       (w_stdin w))"
proof -
  have st: "map_of SUPPORTED_TYPES ''cache'' = Some [''redis'', ''memory'']"
    by (simp add: SUPPORTED_TYPES_def)
  have pr: "''redis'' \<in> set [''redis'', ''memory'']"
    by simp
  have "add_infrastructure_main (Infra_argv (Some ''cache'') (Some ''redis'') project_path_arg) w =
      create_infrastructure (Path_of (arg_default project_path_arg ''.'')) ''cache'' ''redis'' w"
    using assms(1,2) by (simp add: main_accepted [OF st pr])
  then show ?thesis
    using assms(3-6) by (simp add: create_cache_redis)
qed

theorem cache_redis_writes_two_files_witness:
  "path_exists (w_fs go_project) (Path_of ''proj'') \<and>
   path_exists (w_fs go_project) (path_div (Path_of ''proj'') ''go.mod'') \<and>
   fst (add_infrastructure_main (Infra_argv (Some ''cache'') (Some ''redis'') (Some ''proj''))
          go_project) = Inr () \<and>
   fs_files (w_fs (snd (add_infrastructure_main
      (Infra_argv (Some ''cache'') (Some ''redis'') (Some ''proj'')) go_project))) =
     [[''home'', ''proj'', ''go.mod''] \<mapsto> ''module example.com/app\<newline>'',
      [''home'', ''proj'', ''internal'', ''infrastructure'', ''cache'', ''cache.go'']
        \<mapsto> get_cache_interface,
      [''home'', ''proj'', ''internal'', ''infrastructure'', ''cache'', ''redis.go'']
        \<mapsto> get_cache_redis] \<and>
   ''   - github.com/redis/go-redis/v9'' \<in> set (w_out (snd (add_infrastructure_main
      (Infra_argv (Some ''cache'') (Some ''redis'') (Some ''proj'')) go_project)))"
proof -
  let ?fs1 = "Filesystem [''home'']
          {[''home'', ''proj'', ''internal'', ''infrastructure'', ''cache''],
           [''home'', ''proj'', ''internal'', ''infrastructure''],
           [''home'', ''proj'', ''internal''], [''home''], [''home'', ''proj'']}
          [[''home'', ''proj'', ''go.mod''] \<mapsto> ''module example.com/app\<newline>'']"
  have ex: "path_exists (w_fs go_project) (Path_of (arg_default (Some ''proj'') ''.''))"
    and gm: "path_exists (w_fs go_project)
        (path_div (Path_of (arg_default (Some ''proj'') ''.'')) ''go.mod'')"
    by (simp_all add: go_project_def arg_default_def fs_eval str_eval)
  have mk: "Path_mkdir True True (w_fs go_project)
      (path_div (path_div (path_div (Path_of (arg_default (Some ''proj'') ''.''))
         ''internal'') ''infrastructure'') ''cache'') = Inr ?fs1"
    by (simp add: go_project_def arg_default_def fs_eval str_eval insert_commute)
  have rs: "resolve ?fs1
      (path_div (path_div (path_div (Path_of (arg_default (Some ''proj'') ''.''))
         ''internal'') ''infrastructure'') ''cache'') =
      Inr [''home'', ''proj'', ''internal'', ''infrastructure'', ''cache'']"
    by (simp add: arg_default_def fs_eval str_eval)
  have nd1: "\<not> isdir_at ?fs1 ([''home'', ''proj'', ''internal'', ''infrastructure'', ''cache''] @ [''cache.go''])"
    and nd2: "\<not> isdir_at ?fs1 ([''home'', ''proj'', ''internal'', ''infrastructure'', ''cache''] @ [''redis.go''])"
    by (simp_all add: isdir_at_def)
  have "fs_files (w_fs go_project) = [[''home'', ''proj'', ''go.mod''] \<mapsto> ''module example.com/app\<newline>'']"
    by (simp add: go_project_def)
  then show ?thesis
    using cache_redis_writes_two_files [OF ex gm mk rs nd1 nd2] ex gm
    by (simp add: arg_default_def)
qed

section \<open>The component generators\<close>

lemmas monorepo_eval =
  monorepo_main_def find_frontend_package_def iterdir_def monorepo_create_component_def
  monorepo_generators_def monorepo_type_choices_def to_pascal_case_def truthy_def content_of_def
  arg_default_def

lemmas react_eval =
  react_main_def react_create_component_def react_generators_def react_type_choices_def
  to_pascal_case_def dict_get_def arg_default_def

text \<open>
  C4, as stated, fails: \<open>modal\<close> is not a key of the React script's catalog, and its
  \<open>create_component\<close> called with it reports nothing, returns \<open>True\<close> and writes the
  component that the \<open>basic\<close> generator produces.
\<close>

theorem react_unknown_type_counterexample:
  "map_of react_generators ''modal'' = None \<and>
   fst (react_create_component (Path_of ''app'') ''Button'' ''modal'' ''components'' react_project) =
     Inr True \<and>
   fs_files (w_fs (snd (react_create_component (Path_of ''app'') ''Button'' ''modal''
       ''components'' react_project)))
     [''home'', ''app'', ''src'', ''components'', ''Button.tsx''] =
     Some (react_generate_basic_component ''Button'')"
  by (simp add: react_eval react_project_def fs_eval io_eval str_eval Let_def)

lemma monorepo_keys: "map fst monorepo_generators = monorepo_type_choices"
  by (simp add: monorepo_generators_def monorepo_type_choices_def)

lemma react_keys: "map fst react_generators = react_type_choices"
  by (simp add: react_generators_def react_type_choices_def)

lemma map_of_None_keys: "k \<notin> set (map fst xs) \<Longrightarrow> map_of xs k = None"
  by (simp add: map_of_eq_None_iff)

lemma monorepo_create_unknown:
  assumes "component_type \<notin> set (map fst monorepo_generators)"
  shows "monorepo_create_component project_path name component_type directory w =
    (Inr False,
     World (w_fs w)
       (w_out w @
         [''\<newline>'' @ cp_rocket @ '' Generating '' @ name @ '' component ('' @ component_type @ '')\<newline>'',
          cp_cross @ '' Unknown component type: '' @ component_type,
          ''Available types: basic, children, state, form, card, list, modal''])
       (w_stdin w))"
proof -
  have j: "join '', '' (map fst monorepo_generators) =
      ''basic, children, state, form, card, list, modal''"
    by (simp add: monorepo_generators_def)
  show ?thesis
    using map_of_None_keys [OF assms]
    by (simp add: monorepo_create_component_def io_eval j)
qed

lemma monorepo_main_unknown:
  assumes "component_type \<notin> set (map fst monorepo_generators)"
  shows "monorepo_main order
      (Monorepo_argv (Some name) (Some component_type) directory_arg package_arg project_path_arg) w =
    (Inl (SystemExit 2), w)"
  using assms by (simp add: monorepo_keys monorepo_main_def arg_default_def io_eval Let_def)

lemma react_create_unknown:
  assumes "component_type \<notin> set (map fst react_generators)"
  shows "react_create_component project_path name component_type directory =
    react_create_component project_path name ''basic'' directory"
  using map_of_None_keys [OF assms]
  by (simp add: react_create_component_def dict_get_def react_generators_def)

lemma react_main_unknown:
  assumes "component_type \<notin> set (map fst react_generators)"
  shows "react_main (React_argv (Some name) project_path_arg (Some component_type) dir_arg) w =
    (Inl (SystemExit 2), w)"
  using assms by (simp add: react_keys react_main_def arg_default_def io_eval Let_def)

text \<open>
  C4, amended. In both component scripts every key of the catalog maps to exactly one
  generator, and the command line admits for \<open>--type\<close> exactly the keys of the
  catalog: a discriminator outside the catalog ends the process with status 2 before
  anything is printed or written. Called with such a discriminator,
  \<open>create_component\<close> of the monorepo script prints \<open>Unknown component type\<close> and the
  available types, writes nothing and returns \<open>False\<close>, and \<open>create_component\<close> of the
  React script does what it does for \<open>basic\<close>.
\<close>

theorem unknown_component_type:
  "distinct (map fst react_generators) \<and> distinct (map fst monorepo_generators) \<and>
   set react_type_choices = set (map fst react_generators) \<and>
   set monorepo_type_choices = set (map fst monorepo_generators) \<and>
   (component_type \<notin> set (map fst monorepo_generators) \<longrightarrow>
      monorepo_main order
        (Monorepo_argv (Some name) (Some component_type) directory_arg package_arg project_path_arg) w =
        (Inl (SystemExit 2), w) \<and>
      monorepo_create_component project_path name component_type directory w =
        (Inr False,
         World (w_fs w)
           (w_out w @
             [''\<newline>'' @ cp_rocket @ '' Generating '' @ name @ '' component ('' @ component_type @ '')\<newline>'',
              cp_cross @ '' Unknown component type: '' @ component_type,
              ''Available types: basic, children, state, form, card, list, modal''])
           (w_stdin w))) \<and>
   (component_type \<notin> set (map fst react_generators) \<longrightarrow>
      react_main (React_argv (Some name) project_path_arg (Some component_type) directory_arg) w =
        (Inl (SystemExit 2), w) \<and>
      react_create_component project_path name component_type directory =
        react_create_component project_path name ''basic'' directory)"
proof -
  have "distinct (map fst react_generators)" "distinct (map fst monorepo_generators)"
    by (simp_all add: react_generators_def monorepo_generators_def)
  then show ?thesis
    using monorepo_main_unknown monorepo_create_unknown react_main_unknown react_create_unknown
    by (simp add: monorepo_keys react_keys)
qed

theorem unknown_component_type_witness:
  "''table'' \<notin> set (map fst monorepo_generators) \<and>
   ''table'' \<notin> set (map fst react_generators) \<and>
   exit_status (fst (monorepo_main [''web'']
      (Monorepo_argv (Some ''Button'') (Some ''table'') None None (Some ''mono''))
      monorepo_project)) = 2 \<and>
   fst (monorepo_create_component (Path_of ''mono/packages/web'') ''Button'' ''table''
      ''components'' monorepo_project) = Inr False \<and>
   w_fs (snd (monorepo_create_component (Path_of ''mono/packages/web'') ''Button'' ''table''
      ''components'' monorepo_project)) = w_fs monorepo_project \<and>
   exit_status (fst (react_main (React_argv (Some ''Button'') (Some ''app'') (Some ''table'') None)
      react_project)) = 2 \<and>
   react_create_component (Path_of ''app'') ''Button'' ''table'' ''components'' =
     react_create_component (Path_of ''app'') ''Button'' ''basic'' ''components''"
proof -
  have k: "''table'' \<notin> set (map fst monorepo_generators)"
      "''table'' \<notin> set (map fst react_generators)"
    by (simp_all add: monorepo_generators_def react_generators_def)
  show ?thesis
    using k unknown_component_type
      [where component_type = "''table''" and name = "''Button''" and order = "[''web'']"
         and directory_arg = None and package_arg = None and project_path_arg = "Some ''mono''"
         and w = monorepo_project and project_path = "Path_of ''mono/packages/web''"
         and directory = "''components''"]
      unknown_component_type
      [where component_type = "''table''" and name = "''Button''"
         and directory_arg = None and project_path_arg = "Some ''app''"
         and w = react_project and project_path = "Path_of ''app''"
         and directory = "''components''"]
    by simp
qed

text \<open>
  C1 fails on the monorepo script. Running it twice for the component \<open>Button\<close> in the
  same monorepo succeeds both times and leaves \<open>index.ts\<close> with the export line of
  \<open>Button\<close> twice: when the file exists, the line is appended without a test.
\<close>

theorem monorepo_index_duplicate:
  \<open>fst (monorepo_main [''web''] (Monorepo_argv (Some ''Button'') None None None (Some ''mono''))
          monorepo_project) = Inr () \<and>
   fst (monorepo_main [''web''] (Monorepo_argv (Some ''Button'') None None None (Some ''mono''))
     (snd (monorepo_main [''web''] (Monorepo_argv (Some ''Button'') None None None (Some ''mono''))
             monorepo_project))) = Inr () \<and>
   fs_files (w_fs
     (snd (monorepo_main [''web''] (Monorepo_argv (Some ''Button'') None None None (Some ''mono''))
       (snd (monorepo_main [''web''] (Monorepo_argv (Some ''Button'') None None None (Some ''mono''))
               monorepo_project)))))
     [''home'', ''mono'', ''packages'', ''web'', ''src'', ''components'', ''components'', ''index.ts''] =
   Some (''export { Button } from \'./Button'' @ sq @ ''\<newline>'' @
         ''export { Button } from \'./Button'' @ sq @ ''\<newline>'')\<close>
  by (simp add: monorepo_eval monorepo_project_def fs_eval io_eval str_eval Let_def)

text \<open>
  The React script does test for the line: the same two runs there (the user confirms
  the overwrite) leave \<open>index.ts\<close> with the export line once.
\<close>

lemma react_index_once:
  \<open>fst (react_main (React_argv (Some ''Button'') (Some ''app'') None None) react_project) = Inr () \<and>
   fst (react_main (React_argv (Some ''Button'') (Some ''app'') None None)
     (snd (react_main (React_argv (Some ''Button'') (Some ''app'') None None) react_project))) = Inr () \<and>
   fs_files (w_fs
     (snd (react_main (React_argv (Some ''Button'') (Some ''app'') None None)
       (snd (react_main (React_argv (Some ''Button'') (Some ''app'') None None) react_project)))))
     [''home'', ''app'', ''src'', ''components'', ''index.ts''] =
   Some (''export * from \'./Button'' @ sq @ ''\<newline>'')\<close>
  by (simp add: react_eval react_project_def fs_eval io_eval str_eval Let_def)

section \<open>\<open>main\<close> of the domain generator\<close>

text \<open>
  C5 fails on the domain generator. In a Go project that holds \<open>go.mod\<close> and no
  \<open>internal/domain/entity\<close> directory, \<open>main\<close> passes its checks and raises
  \<open>FileNotFoundError\<close> at the first of its five writes: it never creates a directory,
  and the file system is left as it was. (\<open>create_infrastructure\<close> creates its
  directory before it writes.)
\<close>

theorem generate_domain_missing_directory:
  "\<not> path_exists (w_fs go_project) (Path_of ''proj/internal/domain/entity'') \<and>
   fst (generate_domain_main
          (Domain_argv (Some ''user'') (Some ''name:string'') (Some ''proj'')) go_project) =
     Inl FileNotFoundError \<and>
   w_fs (snd (generate_domain_main
          (Domain_argv (Some ''user'') (Some ''name:string'') (Some ''proj'')) go_project)) =
     w_fs go_project"
  by (simp add: generate_domain_main_def go_project_def arg_default_def
      fs_eval io_eval str_eval Let_def)


end
